theory Spec2Isabelle
  imports Complex_Main
begin

section \<open>Numbers\<close>

text \<open>
  JavaScript numbers are modelled as exact rationals: every sum, difference, product and
  guarded quotient of the source is computed without rounding error.  A division whose
  divisor may be zero is modelled separately (type \<open>jsnum\<close> below), because there the
  source produces \<open>Infinity\<close> or \<open>NaN\<close> rather than a finite number.
\<close>

datatype jsnum = Finite rat | PosInfinity | NegInfinity | NaN

text \<open>\<open>a / b\<close> on finite operands.\<close>

definition js_div :: "rat \<Rightarrow> rat \<Rightarrow> jsnum" where
  "js_div a b =
     (if b \<noteq> 0 then Finite (a / b)
      else if a > 0 then PosInfinity
      else if a < 0 then NegInfinity
      else NaN)"

text \<open>\<open>x * c\<close> for a finite factor \<open>c\<close>.\<close>

definition js_times :: "jsnum \<Rightarrow> rat \<Rightarrow> jsnum" where
  "js_times x c =
     (case x of
        Finite a \<Rightarrow> Finite (a * c)
      | PosInfinity \<Rightarrow> (if c > 0 then PosInfinity else if c < 0 then NegInfinity else NaN)
      | NegInfinity \<Rightarrow> (if c > 0 then NegInfinity else if c < 0 then PosInfinity else NaN)
      | NaN \<Rightarrow> NaN)"

text \<open>\<open>Math.abs\<close>.\<close>

definition Math_abs :: "jsnum \<Rightarrow> jsnum" where
  "Math_abs x =
     (case x of
        Finite a \<Rightarrow> Finite \<bar>a\<bar>
      | PosInfinity \<Rightarrow> PosInfinity
      | NegInfinity \<Rightarrow> PosInfinity
      | NaN \<Rightarrow> NaN)"

text \<open>\<open>x <= c\<close> and \<open>x > c\<close> against a finite bound; every comparison with \<open>NaN\<close> is false.\<close>

definition js_le :: "jsnum \<Rightarrow> rat \<Rightarrow> bool" where
  "js_le x c =
     (case x of
        Finite a \<Rightarrow> a \<le> c
      | PosInfinity \<Rightarrow> False
      | NegInfinity \<Rightarrow> True
      | NaN \<Rightarrow> False)"

definition js_gt :: "jsnum \<Rightarrow> rat \<Rightarrow> bool" where
  "js_gt x c =
     (case x of
        Finite a \<Rightarrow> a > c
      | PosInfinity \<Rightarrow> True
      | NegInfinity \<Rightarrow> False
      | NaN \<Rightarrow> False)"

text \<open>\<open>Math.round\<close>: the nearest integer, a tie going towards \<open>+\<infinity>\<close>.\<close>

definition Math_round :: "rat \<Rightarrow> rat" where
  "Math_round x = of_int \<lfloor>x + 1 / 2\<rfloor>"

section \<open>The Date object\<close>

text \<open>
  A (valid) \<open>Date\<close> is its time value: milliseconds since 1970-01-01T00:00:00Z.  The
  calendar functions are those of the ECMAScript specification; the local time zone is a
  fixed offset \<open>tz\<close> (in milliseconds) passed to every function that reads or writes
  local fields, so \<open>LocalTime t = t + tz\<close> and \<open>UTC t = t - tz\<close>.
\<close>

definition msPerDay :: int where "msPerDay = 86400000"
definition msPerHour :: int where "msPerHour = 3600000"

definition Day :: "int \<Rightarrow> int" where
  "Day t = t div msPerDay"

definition TimeWithinDay :: "int \<Rightarrow> int" where
  "TimeWithinDay t = t mod msPerDay"

definition HourFromTime :: "int \<Rightarrow> int" where
  "HourFromTime t = (t div msPerHour) mod 24"

definition DaysInYear :: "int \<Rightarrow> int" where
  "DaysInYear y =
     (if y mod 4 \<noteq> 0 then 365
      else if y mod 100 \<noteq> 0 then 366
      else if y mod 400 \<noteq> 0 then 365
      else 366)"

definition DayFromYear :: "int \<Rightarrow> int" where
  "DayFromYear y =
     365 * (y - 1970) + (y - 1969) div 4 - (y - 1901) div 100 + (y - 1601) div 400"

text \<open>
  \<open>YearFromTime\<close> is the largest year whose first day is not after the given day.  It is
  computed from the mean year length and moved by at most one year; lemma
  \<open>YearFromDay_bounds\<close> shows that the result is that year.
\<close>

definition YearFromDay :: "int \<Rightarrow> int" where
  "YearFromDay d =
     (let y0 = 1970 + (400 * d) div 146097 in
      if d < DayFromYear y0 then y0 - 1
      else if DayFromYear (y0 + 1) \<le> d then y0 + 1
      else y0)"

definition LeapFlag :: "int \<Rightarrow> int" where
  "LeapFlag y = (if DaysInYear y = 366 then 1 else 0)"

definition DayWithinYear :: "int \<Rightarrow> int" where
  "DayWithinYear d = d - DayFromYear (YearFromDay d)"

text \<open>The day within the year on which month \<open>m\<close> (0 = January) starts.\<close>

definition MonthStart :: "int \<Rightarrow> int \<Rightarrow> int" where
  "MonthStart m leap =
     (if m = 0 then 0
      else if m = 1 then 31
      else if m = 2 then 59 + leap
      else if m = 3 then 90 + leap
      else if m = 4 then 120 + leap
      else if m = 5 then 151 + leap
      else if m = 6 then 181 + leap
      else if m = 7 then 212 + leap
      else if m = 8 then 243 + leap
      else if m = 9 then 273 + leap
      else if m = 10 then 304 + leap
      else 334 + leap)"

definition MonthFromDay :: "int \<Rightarrow> int" where
  "MonthFromDay d =
     (let w = DayWithinYear d; leap = LeapFlag (YearFromDay d) in
      if w < 31 then 0
      else if w < 59 + leap then 1
      else if w < 90 + leap then 2
      else if w < 120 + leap then 3
      else if w < 151 + leap then 4
      else if w < 181 + leap then 5
      else if w < 212 + leap then 6
      else if w < 243 + leap then 7
      else if w < 273 + leap then 8
      else if w < 304 + leap then 9
      else if w < 334 + leap then 10
      else 11)"

definition DateFromDay :: "int \<Rightarrow> int" where
  "DateFromDay d =
     DayWithinYear d - MonthStart (MonthFromDay d) (LeapFlag (YearFromDay d)) + 1"

definition WeekDay :: "int \<Rightarrow> int" where
  "WeekDay d = (d + 4) mod 7"

text \<open>\<open>MakeDay(year, month, date)\<close>: the month is normalised into the year first.\<close>

definition MakeDay :: "int \<Rightarrow> int \<Rightarrow> int \<Rightarrow> int" where
  "MakeDay year month dt =
     (let ym = year + month div 12; mn = month mod 12 in
      DayFromYear ym + MonthStart mn (LeapFlag ym) + dt - 1)"

definition getFullYear :: "int \<Rightarrow> int \<Rightarrow> int" where
  "getFullYear tz t = YearFromDay (Day (t + tz))"

definition getMonth :: "int \<Rightarrow> int \<Rightarrow> int" where
  "getMonth tz t = MonthFromDay (Day (t + tz))"

definition getDate :: "int \<Rightarrow> int \<Rightarrow> int" where
  "getDate tz t = DateFromDay (Day (t + tz))"

definition getDay :: "int \<Rightarrow> int \<Rightarrow> int" where
  "getDay tz t = WeekDay (Day (t + tz))"

definition getHours :: "int \<Rightarrow> int \<Rightarrow> int" where
  "getHours tz t = HourFromTime (t + tz)"

text \<open>\<open>date.setDate(dt)\<close>: the local day of the month is replaced, the local time of day kept.\<close>

definition setDate :: "int \<Rightarrow> int \<Rightarrow> int \<Rightarrow> int" where
  "setDate tz t dt =
     (let lt = t + tz in
      MakeDay (YearFromDay (Day lt)) (MonthFromDay (Day lt)) dt * msPerDay
        + TimeWithinDay lt - tz)"

text \<open>\<open>date.setHours(0, 0, 0, 0)\<close>: local midnight of the same local day.\<close>

definition setHours0 :: "int \<Rightarrow> int \<Rightarrow> int" where
  "setHours0 tz t = Day (t + tz) * msPerDay - tz"

section \<open>Strings\<close>

text \<open>Decimal digits of a non-negative integer (\<open>String(n)\<close>).\<close>

fun string_of_nat :: "nat \<Rightarrow> string" where
  "string_of_nat n =
     (if n < 10 then [''0123456789'' ! n]
      else string_of_nat (n div 10) @ [''0123456789'' ! (n mod 10)])"

declare string_of_nat.simps [simp del]

definition string_of_int :: "int \<Rightarrow> string" where
  "string_of_int i =
     (if i < 0 then CHR ''-'' # string_of_nat (nat (- i)) else string_of_nat (nat i))"

text \<open>\<open>s.padStart(n, c)\<close> for a one-character filler.\<close>

definition padStart :: "nat \<Rightarrow> char \<Rightarrow> string \<Rightarrow> string" where
  "padStart n c s = replicate (n - length s) c @ s"

text \<open>The relational operator \<open><\<close> on strings: code units compared from the left.\<close>

fun str_less :: "string \<Rightarrow> string \<Rightarrow> bool" where
  "str_less [] [] = False"
| "str_less [] (y # ys) = True"
| "str_less (x # xs) [] = False"
| "str_less (x # xs) (y # ys) =
     (if x = y then str_less xs ys else (of_char x :: nat) < of_char y)"

section \<open>date-fns\<close>

text \<open>\<open>addLeadingZeros(number, targetLength)\<close>.\<close>

definition addLeadingZeros :: "int \<Rightarrow> nat \<Rightarrow> string" where
  "addLeadingZeros number targetLength =
     (if number < 0 then ''-'' else '''')
       @ padStart targetLength (CHR ''0'') (string_of_nat (nat \<bar>number\<bar>))"

text \<open>
  \<open>format(date, 'yyyy-MM-dd')\<close>: the year of the era (a year before 1 is counted
  backwards from 1), the month and the day of the local date, zero-padded.
\<close>

definition format_ymd :: "int \<Rightarrow> int \<Rightarrow> string" where
  "format_ymd tz t =
     (let signedYear = getFullYear tz t;
          year = (if signedYear > 0 then signedYear else 1 - signedYear)
      in addLeadingZeros year 4 @ ''-''
           @ addLeadingZeros (getMonth tz t + 1) 2 @ ''-''
           @ addLeadingZeros (getDate tz t) 2)"

text \<open>\<open>addDays(date, amount)\<close>: \<open>setDate(getDate() + amount)\<close> on a copy.\<close>

definition addDays :: "int \<Rightarrow> int \<Rightarrow> int \<Rightarrow> int" where
  "addDays tz t amount = setDate tz t (getDate tz t + amount)"

text \<open>\<open>startOfWeek(date, {weekStartsOn})\<close>.\<close>

definition startOfWeek :: "int \<Rightarrow> int \<Rightarrow> int \<Rightarrow> int" where
  "startOfWeek tz weekStartsOn t =
     (let day = getDay tz t;
          diff = (if day < weekStartsOn then 7 else 0) + day - weekStartsOn;
          d1 = setDate tz t (getDate tz t - diff)
      in setHours0 tz d1)"

section \<open>utils/date-helpers.ts\<close>

definition formatDateToString :: "int \<Rightarrow> int \<Rightarrow> string" where
  "formatDateToString tz date =
     (let year = getFullYear tz date;
          month = padStart 2 (CHR ''0'') (string_of_int (getMonth tz date + 1));
          day = padStart 2 (CHR ''0'') (string_of_int (getDate tz date))
      in string_of_int year @ ''-'' @ month @ ''-'' @ day)"

text \<open>
  \<open>getAppDate(date?)\<close>: \<open>clock\<close> is the instant \<open>new Date()\<close> returns when no date is
  passed.
\<close>

definition getAppDate :: "int \<Rightarrow> int \<Rightarrow> int option \<Rightarrow> string" where
  "getAppDate tz clock date =
     (let now = (case date of Some d \<Rightarrow> d | None \<Rightarrow> clock) in
      if getHours tz now < 3 then
        (let yesterday = setDate tz now (getDate tz now - 1)
         in formatDateToString tz yesterday)
      else formatDateToString tz now)"

text \<open>
  The civil date (year, month 1..12, day of the month) of a day number, and its rendering
  as \<open>YYYY-MM-DD\<close> with a two-digit month and day; used to state what \<open>getAppDate\<close>
  returns.
\<close>

definition calendar_date :: "int \<Rightarrow> int \<times> int \<times> int" where
  "calendar_date d = (YearFromDay d, MonthFromDay d + 1, DateFromDay d)"

definition ymd_string :: "int \<times> int \<times> int \<Rightarrow> string" where
  "ymd_string c =
     (case c of (y, m, d) \<Rightarrow>
        string_of_int y @ ''-'' @ padStart 2 (CHR ''0'') (string_of_int m) @ ''-''
          @ padStart 2 (CHR ''0'') (string_of_int d))"

text \<open>The local day number that the 3 AM rule assigns to an instant.\<close>

definition app_day :: "int \<Rightarrow> int \<Rightarrow> int" where
  "app_day tz t = (if 3 \<le> HourFromTime (t + tz) then Day (t + tz) else Day (t + tz) - 1)"

text \<open>
  \<open>new Date(s)\<close> for a date-only string \<open>YYYY-MM-DD\<close>, which is read as midnight UTC;
  a day of the month up to 31 is accepted and carried into the next month.  \<open>None\<close> is
  the Invalid Date; strings of any other shape are not modelled and give \<open>None\<close> too.
\<close>

fun digits_value :: "string \<Rightarrow> nat \<Rightarrow> nat option" where
  "digits_value [] acc = Some acc"
| "digits_value (c # cs) acc =
     (if (48 :: nat) \<le> of_char c \<and> of_char c \<le> (57 :: nat)
      then digits_value cs (acc * 10 + (of_char c - 48))
      else None)"

definition new_Date_string :: "string \<Rightarrow> int option" where
  "new_Date_string s =
     (if length s = 10 \<and> s ! 4 = CHR ''-'' \<and> s ! 7 = CHR ''-'' then
        (case (digits_value (take 4 s) 0, digits_value (take 2 (drop 5 s)) 0,
               digits_value (drop 8 s) 0) of
           (Some y, Some m, Some d) \<Rightarrow>
             (if 1 \<le> m \<and> m \<le> 12 \<and> 1 \<le> d \<and> d \<le> 31
              then Some (MakeDay (int y) (int m - 1) (int d) * msPerDay)
              else None)
         | _ \<Rightarrow> None)
      else None)"

text \<open>
  \<open>date.toISOString()\<close>: the UTC fields; a year outside 0..9999 is written with a sign
  and six digits.
\<close>

definition toISOString :: "int \<Rightarrow> string" where
  "toISOString t =
     (let d = Day t; y = YearFromDay d; ms = TimeWithinDay t in
      (if 0 \<le> y \<and> y \<le> 9999 then addLeadingZeros y 4
       else (if y < 0 then ''-'' else ''+'') @ addLeadingZeros \<bar>y\<bar> 6)
      @ ''-'' @ addLeadingZeros (MonthFromDay d + 1) 2
      @ ''-'' @ addLeadingZeros (DateFromDay d) 2
      @ ''T'' @ addLeadingZeros (ms div msPerHour) 2
      @ '':'' @ addLeadingZeros ((ms div 60000) mod 60) 2
      @ '':'' @ addLeadingZeros ((ms div 1000) mod 60) 2
      @ ''.'' @ addLeadingZeros (ms mod 1000) 3 @ ''Z'')"

section \<open>utils/weekly-stats.ts\<close>

text \<open>
  \<open>getWeekStart(date: Date | string)\<close>.  The result is \<open>None\<close> when the string does not
  denote a date (the Invalid Date).
\<close>

datatype DateArg = DateObj int | DateStr string

definition getWeekStart :: "int \<Rightarrow> DateArg \<Rightarrow> int option" where
  "getWeekStart tz date =
     (let d = (case date of DateStr s \<Rightarrow> new_Date_string s | DateObj t \<Rightarrow> Some t)
      in map_option (startOfWeek tz 1) d)"

text \<open>
  Modelled from the spec: the type \<open>FoodEntry\<close> of \<open>types\<close>, which is not among the
  sources; a logged meal with an identifier, a display name, and calorie and protein
  figures that may be missing (\<open>None\<close> is \<open>null\<close> or \<open>undefined\<close>).
\<close>

record FoodEntry =
  entry_id :: string
  entry_name :: string
  entry_calories :: "rat option"
  entry_protein :: "rat option"

record Macros =
  calories :: rat
  protein :: rat

record DayData = Macros +
  date :: string
  entries :: "FoodEntry list"

text \<open>\<open>x || 0\<close> on a number that may be missing.\<close>

definition or_zero :: "rat option \<Rightarrow> rat" where
  "or_zero x = (case x of None \<Rightarrow> 0 | Some v \<Rightarrow> (if v = 0 then 0 else v))"

text \<open>The reduction of a day's entries to its totals.\<close>

definition sumTotals :: "FoodEntry list \<Rightarrow> Macros" where
  "sumTotals es =
     foldl (\<lambda>acc entry.
              \<lparr>calories = calories acc + or_zero (entry_calories entry),
               protein = protein acc + or_zero (entry_protein entry)\<rparr>)
           \<lparr>calories = 0, protein = 0\<rparr> es"

text \<open>The loop \<open>for (let i = 0; i < 7; i++)\<close> with its two mutable variables.\<close>

function weekLoop ::
  "int \<Rightarrow> int \<Rightarrow> (string \<rightharpoonup> FoodEntry list) \<Rightarrow> nat \<Rightarrow> DayData list \<Rightarrow> nat
     \<Rightarrow> DayData list \<times> nat" where
  "weekLoop tz weekStart allData i dailyData daysLogged =
     (if i < 7 then
        (let date = addDays tz weekStart (int i);
             dateStr = format_ymd tz date;
             entries = (case allData dateStr of Some es \<Rightarrow> es | None \<Rightarrow> []);
             daysLogged' = (if length entries > 0 then daysLogged + 1 else daysLogged);
             totals = sumTotals entries
         in weekLoop tz weekStart allData (i + 1)
              (dailyData @ [\<lparr>calories = calories totals, protein = protein totals,
                              date = dateStr, entries = entries\<rparr>])
              daysLogged')
      else (dailyData, daysLogged))"
  by pat_completeness auto
termination
  by (relation "measure (\<lambda>(tz, weekStart, allData, i, dailyData, daysLogged). 7 - i)") auto

declare weekLoop.simps [simp del]

text \<open>The element that the loop body pushes for the day with index \<open>i\<close>.\<close>

definition dayData_at :: "int \<Rightarrow> int \<Rightarrow> (string \<rightharpoonup> FoodEntry list) \<Rightarrow> nat \<Rightarrow> DayData" where
  "dayData_at tz weekStart allData i =
     (let dateStr = format_ymd tz (addDays tz weekStart (int i));
          es = (case allData dateStr of Some es \<Rightarrow> es | None \<Rightarrow> []);
          totals = sumTotals es
      in \<lparr>calories = calories totals, protein = protein totals, date = dateStr, entries = es\<rparr>)"

text \<open>The days that enter the averages: the filter \<open>completedDaysWithFood\<close>.\<close>

definition completedDaysWithFood :: "string \<Rightarrow> DayData list \<Rightarrow> DayData list" where
  "completedDaysWithFood today dailyData =
     filter (\<lambda>day. str_less (date day) today \<and> calories day > 0) dailyData"

text \<open>The entry list that the loop reads for the day with index \<open>i\<close>: \<open>allData[dateStr] || []\<close>.\<close>

definition fetched :: "int \<Rightarrow> int \<Rightarrow> (string \<rightharpoonup> FoodEntry list) \<Rightarrow> nat \<Rightarrow> FoodEntry list" where
  "fetched tz weekStart allData i =
     (case allData (format_ymd tz (addDays tz weekStart (int i))) of Some es \<Rightarrow> es | None \<Rightarrow> [])"

record Deficit =
  daily :: rat
  weekly :: rat

record WeeklyStats =
  dailyData :: "DayData list"
  averages :: Macros
  deficit :: Deficit
  daysLogged :: nat

text \<open>
  \<open>getWeeklyStats\<close>.  \<open>clock\<close> is the instant at which \<open>getAppDate()\<close> reads the time;
  a rejected \<open>getDataForRange\<close> is \<open>Inl\<close> and is passed on unchanged.
\<close>

definition getWeeklyStats ::
  "int \<Rightarrow> int \<Rightarrow> int \<Rightarrow> rat \<Rightarrow> rat
     \<Rightarrow> (string \<Rightarrow> string \<Rightarrow> 'e + (string \<rightharpoonup> FoodEntry list))
     \<Rightarrow> 'e + WeeklyStats" where
  "getWeeklyStats tz clock weekStart targetCalories maintenanceCalories getDataForRange =
     (let weekEnd = addDays tz weekStart 6;
          startDate = format_ymd tz weekStart;
          endDate = format_ymd tz weekEnd;
          today = getAppDate tz clock None
      in case getDataForRange startDate endDate of
           Inl e \<Rightarrow> Inl e
         | Inr allData \<Rightarrow>
             (let (dailyData, daysLogged) = weekLoop tz weekStart allData 0 [] 0;
                  completedDaysWithFood =
                    filter (\<lambda>day. str_less (date day) today \<and> calories day > 0) dailyData;
                  avgCaloriesTotal = foldl (\<lambda>sum day. sum + calories day) 0 completedDaysWithFood;
                  avgProteinTotal = foldl (\<lambda>sum day. sum + protein day) 0 completedDaysWithFood;
                  avgDaysCount = length completedDaysWithFood;
                  avgCalories = (if avgDaysCount > 0
                                 then Math_round (avgCaloriesTotal / of_nat avgDaysCount) else 0);
                  avgProtein = (if avgDaysCount > 0
                                then Math_round (avgProteinTotal / of_nat avgDaysCount) else 0);
                  dailyDeficit = avgCalories - maintenanceCalories;
                  weeklyDeficit = (if avgDaysCount > 0
                                   then dailyDeficit * of_nat avgDaysCount else 0)
              in Inr \<lparr>dailyData = dailyData,
                      averages = \<lparr>calories = avgCalories, protein = avgProtein\<rparr>,
                      deficit = \<lparr>daily = dailyDeficit, weekly = weeklyDeficit\<rparr>,
                      daysLogged = daysLogged\<rparr>))"

section \<open>The calorie colour at its four display sites\<close>

text \<open>\<open>!x\<close> on an optional number: true for \<open>undefined\<close> and for 0.\<close>

definition falsy :: "rat option \<Rightarrow> bool" where
  "falsy x = (case x of None \<Rightarrow> True | Some v \<Rightarrow> v = 0)"

text \<open>
  \<open>components/Totals.tsx\<close>, \<open>getCalorieColor\<close>: a closure over \<open>totals\<close>,
  \<open>targetCalories\<close> and the optional property \<open>maintenanceCalories\<close>.
\<close>

definition getCalorieColor :: "Macros \<Rightarrow> rat \<Rightarrow> rat option \<Rightarrow> string" where
  "getCalorieColor totals targetCalories maintenanceCalories =
     (if calories totals = 0 then ''#9CA3AF''
      else if targetCalories = 0 then ''#9CA3AF''
      else if falsy maintenanceCalories then
        (let percentOfTarget = (calories totals / targetCalories) * 100 in
         if percentOfTarget > 100 then ''#EF4444''
         else if percentOfTarget > 90 then ''#F59E0B''
         else ''#10A37F'')
      else
        (let maintenance = or_zero maintenanceCalories;
             isDeficit = targetCalories < maintenance;
             isSurplus = targetCalories > maintenance;
             diff = calories totals - targetCalories;
             percentDiff = (diff / targetCalories) * 100;
             isAligned = (isDeficit \<and> diff < 0) \<or> (isSurplus \<and> diff > 0)
         in if isAligned then
              (let absDiff = \<bar>percentDiff\<bar> in
               if absDiff \<le> 10 then ''#10A37F''
               else if absDiff \<le> 20 then ''#F59E0B''
               else if absDiff \<le> 30 then ''#F97316''
               else ''#EF4444'')
            else
              (let absDiff = \<bar>percentDiff\<bar> in
               if absDiff \<le> 5 then ''#10A37F''
               else ''#EF4444'')))"

text \<open>
  Modelled from the spec: the type \<open>UserSettings\<close> of \<open>types\<close>, which is not among the
  sources; the three goal figures of a user.
\<close>

record UserSettings =
  target_calories :: rat
  maintenance_calories :: rat
  target_protein :: rat

text \<open>\<open>app/(tabs)/index.tsx\<close>, \<open>getCalorieColor\<close>: a closure over \<open>entries\<close> and \<open>settings\<close>.\<close>

definition getCalorieColor_index :: "FoodEntry list \<Rightarrow> UserSettings \<Rightarrow> string" where
  "getCalorieColor_index es settings =
     (let totals_calories = foldl (\<lambda>acc entry. acc + or_zero (entry_calories entry)) 0 es in
      if totals_calories = 0 \<or> target_calories settings = 0 then ''#9CA3AF''
      else
        (let isDeficit = target_calories settings < maintenance_calories settings;
             isSurplus = target_calories settings > maintenance_calories settings;
             diff = totals_calories - target_calories settings;
             percentDiff = (diff / target_calories settings) * 100;
             isAligned = (isDeficit \<and> diff < 0) \<or> (isSurplus \<and> diff > 0)
         in if isAligned then
              (let absDiff = \<bar>percentDiff\<bar> in
               if absDiff \<le> 10 then ''#10A37F''
               else if absDiff \<le> 20 then ''#F59E0B''
               else if absDiff \<le> 30 then ''#F97316''
               else ''#EF4444'')
            else
              (let absDiff = \<bar>percentDiff\<bar> in
               if absDiff \<le> 5 then ''#10A37F''
               else ''#EF4444'')))"

text \<open>
  \<open>app/(tabs)/analytics.tsx\<close>, \<open>getCaloriesColor\<close>, used by the per-user per-day grid.
  The target is not tested before the division, so the quotient is a \<open>jsnum\<close>.
\<close>

definition getCaloriesColor :: "rat \<Rightarrow> rat \<Rightarrow> rat \<Rightarrow> string" where
  "getCaloriesColor cals target maintenance =
     (if cals = 0 then ''bg-gray-100 text-gray-500''
      else
        (let isDeficit = target < maintenance;
             isSurplus = target > maintenance;
             diff = cals - target;
             percentDiff = js_times (js_div diff target) 100;
             isAligned = (isDeficit \<and> diff < 0) \<or> (isSurplus \<and> diff > 0)
         in if isAligned then
              (let absDiff = Math_abs percentDiff in
               if js_le absDiff 10 then ''bg-green-100 text-green-700''
               else if js_le absDiff 20 then ''bg-yellow-100 text-yellow-700''
               else if js_le absDiff 30 then ''bg-orange-100 text-orange-700''
               else ''bg-red-100 text-red-700'')
            else
              (let absDiff = Math_abs percentDiff in
               if js_le absDiff 5 then ''bg-green-100 text-green-700''
               else ''bg-red-100 text-red-700'')))"

text \<open>
  The WeeklyChart component (the second file of \<open>components/ChatInput.tsx\<close>), rendered by
  the Dashboard screen: the \<open>frontColor\<close> that \<open>caloriesData\<close> gives to the bar of a day,
  a closure over \<open>targetCalories\<close> and \<open>maintenanceCalories\<close>.  The variable
  \<open>barColor\<close> starts green and is assigned on every path.  The target is not tested
  before the division.
\<close>

definition caloriesData_frontColor :: "DayData \<Rightarrow> rat \<Rightarrow> rat \<Rightarrow> string" where
  "caloriesData_frontColor day targetCalories maintenanceCalories =
     (if calories day = 0 then ''#E5E7EB''
      else
        (let isDeficit = targetCalories < maintenanceCalories;
             isSurplus = targetCalories > maintenanceCalories;
             diff = calories day - targetCalories;
             percentDiff = js_times (js_div diff targetCalories) 100;
             isAligned = (isDeficit \<and> diff < 0) \<or> (isSurplus \<and> diff > 0);
             absDiff = Math_abs percentDiff
         in if isAligned then
              (if js_le absDiff 10 then ''#4ADE80''
               else if js_le absDiff 20 then ''#FBBF24''
               else if js_le absDiff 30 then ''#FB923C''
               else ''#F87171'')
            else
              (if js_le absDiff 5 then ''#4ADE80''
               else ''#F87171'')))"

subsection \<open>The classifier as the specification words it\<close>

datatype Tier = on_track | close | needs_work | off_track | no_data

text \<open>
  The rule of the specification, written from its sentences and not from the code:
  goal mode, signed percentage, alignment, the gradual and the strict band, and the
  \<open>no_data\<close> tier for a zero measurement or a zero target.
\<close>

definition spec_classifyCalories :: "rat \<Rightarrow> rat \<Rightarrow> rat \<Rightarrow> Tier" where
  "spec_classifyCalories measured target maintenance =
     (if measured = 0 \<or> target = 0 then no_data
      else
        (let isDeficitGoal = target < maintenance;
             isSurplusGoal = target > maintenance;
             diff = measured - target;
             percentDiff = diff / target * 100;
             isAligned = (isDeficitGoal \<and> diff < 0) \<or> (isSurplusGoal \<and> diff > 0)
         in if isAligned then
              (if \<bar>percentDiff\<bar> \<le> 10 then on_track
               else if \<bar>percentDiff\<bar> \<le> 20 then close
               else if \<bar>percentDiff\<bar> \<le> 30 then needs_work
               else off_track)
            else
              (if \<bar>percentDiff\<bar> \<le> 5 then on_track else off_track)))"

text \<open>How the display sites render a tier: hex colours, CSS classes, bar colours.\<close>

definition tier_hex :: "Tier \<Rightarrow> string" where
  "tier_hex t =
     (case t of
        on_track \<Rightarrow> ''#10A37F''
      | close \<Rightarrow> ''#F59E0B''
      | needs_work \<Rightarrow> ''#F97316''
      | off_track \<Rightarrow> ''#EF4444''
      | no_data \<Rightarrow> ''#9CA3AF'')"

definition tier_class :: "Tier \<Rightarrow> string" where
  "tier_class t =
     (case t of
        on_track \<Rightarrow> ''bg-green-100 text-green-700''
      | close \<Rightarrow> ''bg-yellow-100 text-yellow-700''
      | needs_work \<Rightarrow> ''bg-orange-100 text-orange-700''
      | off_track \<Rightarrow> ''bg-red-100 text-red-700''
      | no_data \<Rightarrow> ''bg-gray-100 text-gray-500'')"

definition tier_bar :: "Tier \<Rightarrow> string" where
  "tier_bar t =
     (case t of
        on_track \<Rightarrow> ''#4ADE80''
      | close \<Rightarrow> ''#FBBF24''
      | needs_work \<Rightarrow> ''#FB923C''
      | off_track \<Rightarrow> ''#F87171''
      | no_data \<Rightarrow> ''#E5E7EB'')"

section \<open>Week navigation\<close>

text \<open>\<open>format\<close> of date-fns throws a \<open>RangeError\<close> on an Invalid Date.\<close>

datatype js_error = RangeError

text \<open>
  The Dashboard screen has a \<open>getTodayDate\<close> of its own:
  \<open>today.toISOString().split('T')[0]\<close>, the UTC calendar date of the clock.
\<close>

definition getTodayDate_Dashboard :: "int \<Rightarrow> string" where
  "getTodayDate_Dashboard clock = takeWhile (\<lambda>c. c \<noteq> CHR ''T'') (toISOString clock)"

text \<open>
  \<open>navigateWeek\<close> of the Dashboard screen.  The result is the value of the state
  variable \<open>weekStart\<close> after the call: unchanged when the step is refused.
\<close>

definition navigateWeek_Dashboard :: "int \<Rightarrow> int \<Rightarrow> int \<Rightarrow> int \<Rightarrow> js_error + int" where
  "navigateWeek_Dashboard tz clock weekStart direction =
     (let newWeekStart = setDate tz weekStart (getDate tz weekStart + direction * 7) in
      if direction > 0 then
        (case new_Date_string (getTodayDate_Dashboard clock) of
           None \<Rightarrow> Inl RangeError
         | Some today \<Rightarrow>
             (case getWeekStart tz (DateObj today) of
                None \<Rightarrow> Inl RangeError
              | Some currentWeekStart \<Rightarrow>
                  (if str_less (format_ymd tz currentWeekStart) (format_ymd tz newWeekStart)
                   then Inr weekStart
                   else Inr newWeekStart)))
      else Inr newWeekStart)"

text \<open>
  \<open>navigateWeek\<close> of the analytics screen, where \<open>getTodayDate\<close> is \<open>getAppDate\<close>; an
  accepted step also empties the cache of expanded rows.
\<close>

record 'a AnalyticsState =
  weekStart :: int
  expandedRowsData :: "string \<rightharpoonup> 'a"

definition navigateWeek ::
  "int \<Rightarrow> int \<Rightarrow> 'a AnalyticsState \<Rightarrow> int \<Rightarrow> js_error + 'a AnalyticsState" where
  "navigateWeek tz clock st direction =
     (let newWeekStart = setDate tz (weekStart st) (getDate tz (weekStart st) + direction * 7) in
      if direction > 0 then
        (case new_Date_string (getAppDate tz clock None) of
           None \<Rightarrow> Inl RangeError
         | Some today \<Rightarrow>
             (case getWeekStart tz (DateObj today) of
                None \<Rightarrow> Inl RangeError
              | Some currentWeekStart \<Rightarrow>
                  (if str_less (format_ymd tz currentWeekStart) (format_ymd tz newWeekStart)
                   then Inr st
                   else Inr (st\<lparr>expandedRowsData := Map.empty, weekStart := newWeekStart\<rparr>))))
      else Inr (st\<lparr>expandedRowsData := Map.empty, weekStart := newWeekStart\<rparr>))"

section \<open>Example data\<close>

text \<open>
  The week of Monday 2024-01-08 in a zone without offset, looked at on Thursday
  2024-01-11 at noon: three completed days, an entry for the running day, nothing after.
\<close>

definition example_entry :: "rat \<Rightarrow> rat \<Rightarrow> FoodEntry" where
  "example_entry c p =
     \<lparr>entry_id = ''id'', entry_name = ''meal'', entry_calories = Some c, entry_protein = Some p\<rparr>"

definition example_week :: int where
  "example_week = 19730 * msPerDay"

definition example_clock :: int where
  "example_clock = 19733 * msPerDay + 12 * msPerHour"

definition example_data :: "string \<rightharpoonup> FoodEntry list" where
  "example_data =
     [''2024-01-08'' \<mapsto> [example_entry 1800 120],
      ''2024-01-09'' \<mapsto> [example_entry 2000 150],
      ''2024-01-10'' \<mapsto> [example_entry 1200 80, example_entry 1000 70],
      ''2024-01-11'' \<mapsto> [example_entry 500 30]]"

definition example_today_only :: "string \<rightharpoonup> FoodEntry list" where
  "example_today_only = [''2024-01-11'' \<mapsto> [example_entry 500 30]]"

definition example_other :: "string \<rightharpoonup> FoodEntry list" where
  "example_other = example_data(''2024-01-15'' \<mapsto> [example_entry 900 40])"

text \<open>Monday 2024-01-15 at 1 AM, in a zone without offset.\<close>

definition example_night :: int where
  "example_night = 19737 * msPerDay + msPerHour"

section \<open>Year, month and day of a day number\<close>

text \<open>
  The year computed by \<open>YearFromDay\<close> is the one whose days include the given day; the
  day within the year, the month and the day of the month are in range; and the civil
  date grows with the day number.
\<close>

lemma int_div_bounds:
  assumes "0 < (c::int)"
  shows "c * (x div c) \<le> x" and "x < c * (x div c) + c"
proof -
  have m: "0 \<le> x mod c" "x mod c < c" using assms by simp_all
  have e: "c * (x div c) + x mod c = x" by simp
  from m e show "c * (x div c) \<le> x" by linarith
  from m e show "x < c * (x div c) + c" by linarith
qed

lemma DayFromYear_estimate:
  "400 * DayFromYear (1970 + k) \<le> 146097 * k + 600"
  "146097 * k - 800 \<le> 400 * DayFromYear (1970 + k)"
proof -
  define a where "a = (k + 1) div 4"
  define b where "b = (k + 69) div 100"
  define c where "c = (k + 369) div 400"
  have a: "4 * a \<le> k + 1" "k + 1 < 4 * a + 4"
    unfolding a_def by (rule int_div_bounds, simp)+
  have b: "100 * b \<le> k + 69" "k + 69 < 100 * b + 100"
    unfolding b_def by (rule int_div_bounds, simp)+
  have c: "400 * c \<le> k + 369" "k + 369 < 400 * c + 400"
    unfolding c_def by (rule int_div_bounds, simp)+
  have D: "DayFromYear (1970 + k) = 365 * k + a - b + c"
    by (simp add: DayFromYear_def a_def b_def c_def add.commute)
  have E: "400 * DayFromYear (1970 + k) = 146000 * k + 400 * a - 400 * b + 400 * c"
    unfolding D by simp
  from a b c show "400 * DayFromYear (1970 + k) \<le> 146097 * k + 600"
    unfolding E by linarith
  from a b c show "146097 * k - 800 \<le> 400 * DayFromYear (1970 + k)"
    unfolding E by linarith
qed

lemma DayFromYear_strict_mono:
  assumes "y < y'"
  shows "DayFromYear y < DayFromYear y'"
proof -
  define k where "k = y - 1970"
  define k' where "k' = y' - 1970"
  define u where "u = DayFromYear (1970 + k)"
  define v where "v = DayFromYear (1970 + k')"
  have "400 * u \<le> 146097 * k + 600" "146097 * k' - 800 \<le> 400 * v"
    unfolding u_def v_def by (rule DayFromYear_estimate)+
  moreover from assms have "k + 1 \<le> k'" by (simp add: k_def k'_def)
  ultimately have "u < v" by linarith
  then show ?thesis by (simp add: u_def v_def k_def k'_def)
qed

lemma YearFromDay_bounds:
  "DayFromYear (YearFromDay d) \<le> d \<and> d < DayFromYear (YearFromDay d + 1)"
proof -
  define q where "q = (400 * d) div 146097"
  have q: "146097 * q \<le> 400 * d" "400 * d < 146097 * q + 146097"
    unfolding q_def by (rule int_div_bounds, simp)+
  define u where "u = DayFromYear (1970 + (q - 1))"
  define v where "v = DayFromYear (1970 + (q + 2))"
  have "400 * u \<le> 146097 * (q - 1) + 600"
    unfolding u_def by (rule DayFromYear_estimate)
  then have "400 * u \<le> 146097 * q - 145497" by (simp add: algebra_simps)
  with q have "u \<le> d" by linarith
  then have A: "DayFromYear (1970 + q - 1) \<le> d" by (simp add: u_def)
  have "146097 * (q + 2) - 800 \<le> 400 * v"
    unfolding v_def by (rule DayFromYear_estimate)
  then have "146097 * q + 291394 \<le> 400 * v" by (simp add: algebra_simps)
  with q have "d < v" by linarith
  then have B: "d < DayFromYear (1970 + q + 2)" by (simp add: v_def add.assoc)
  have Y: "YearFromDay d =
     (if d < DayFromYear (1970 + q) then 1970 + q - 1
      else if DayFromYear (1970 + q + 1) \<le> d then 1970 + q + 1 else 1970 + q)"
    by (simp add: YearFromDay_def q_def Let_def)
  show ?thesis
  proof (cases "d < DayFromYear (1970 + q)")
    case True
    with A Y show ?thesis by simp
  next
    case False
    show ?thesis
    proof (cases "DayFromYear (1970 + q + 1) \<le> d")
      case True
      with False B Y show ?thesis by (simp add: add.assoc)
    next
      case False
      with \<open>\<not> d < DayFromYear (1970 + q)\<close> Y show ?thesis by simp
    qed
  qed
qed

lemma YearFromDay_unique:
  assumes "DayFromYear y \<le> d" "d < DayFromYear (y + 1)"
  shows "YearFromDay d = y"
proof (rule ccontr)
  assume ne: "YearFromDay d \<noteq> y"
  note b = YearFromDay_bounds [of d]
  show False
  proof (cases "YearFromDay d < y")
    case True
    then have "YearFromDay d + 1 \<le> y" by simp
    then have "DayFromYear (YearFromDay d + 1) \<le> DayFromYear y"
      using DayFromYear_strict_mono [of "YearFromDay d + 1" y] by (cases "YearFromDay d + 1 = y") auto
    with b assms show False by linarith
  next
    case False
    with ne have "y + 1 \<le> YearFromDay d" by simp
    then have "DayFromYear (y + 1) \<le> DayFromYear (YearFromDay d)"
      using DayFromYear_strict_mono [of "y + 1" "YearFromDay d"] by (cases "y + 1 = YearFromDay d") auto
    with b assms show False by linarith
  qed
qed

lemma YearFromDay_mono: "a \<le> b \<Longrightarrow> YearFromDay a \<le> YearFromDay b"
proof (rule ccontr)
  assume ab: "a \<le> b" and "\<not> YearFromDay a \<le> YearFromDay b"
  then have "YearFromDay b + 1 \<le> YearFromDay a" by simp
  then have "DayFromYear (YearFromDay b + 1) \<le> DayFromYear (YearFromDay a)"
    using DayFromYear_strict_mono [of "YearFromDay b + 1" "YearFromDay a"]
    by (cases "YearFromDay b + 1 = YearFromDay a") auto
  with YearFromDay_bounds [of a] YearFromDay_bounds [of b] ab show False by linarith
qed

lemma div_succ:
  assumes "0 < (c::int)"
  shows "(x + 1) div c = x div c + (if (x + 1) mod c = 0 then 1 else 0)"
proof -
  have m: "0 \<le> x mod c" "x mod c < c" using assms by simp_all
  have e: "x = c * (x div c) + x mod c" by simp
  show ?thesis
  proof (cases "x mod c + 1 = c")
    case True
    have "x + 1 = c * (x div c) + (x mod c + 1)" using e by simp
    also have "\<dots> = c * (x div c) + c" using True by simp
    also have "\<dots> = c * (x div c + 1) + 0" by (simp add: algebra_simps)
    finally have "x + 1 = c * (x div c + 1) + 0" .
    then have "(x + 1) div c = x div c + 1" "(x + 1) mod c = 0"
      using assms int_div_pos_eq [of "x + 1" c "x div c + 1" 0]
        int_mod_pos_eq [of "x + 1" c "x div c + 1" 0] by simp_all
    then show ?thesis by simp
  next
    case False
    with m have r: "0 \<le> x mod c + 1" "x mod c + 1 < c" by simp_all
    have "x + 1 = c * (x div c) + (x mod c + 1)" using e by simp
    with r have "(x + 1) div c = x div c" "(x + 1) mod c = x mod c + 1"
      using int_div_pos_eq [of "x + 1" c "x div c" "x mod c + 1"]
        int_mod_pos_eq [of "x + 1" c "x div c" "x mod c + 1"] by simp_all
    with m show ?thesis by simp
  qed
qed

lemma mod_shift:
  "(y - 1968) mod 4 = y mod (4::int)"
  "(y - 1900) mod 100 = y mod (100::int)"
  "(y - 1600) mod 400 = y mod (400::int)"
proof -
  have "y - 1968 = y + 4 * (- 492)" by simp
  then show "(y - 1968) mod 4 = y mod 4" by (metis mod_mult_self2)
  have "y - 1900 = y + 100 * (- 19)" by simp
  then show "(y - 1900) mod 100 = y mod 100" by (metis mod_mult_self2)
  have "y - 1600 = y + 400 * (- 4)" by simp
  then show "(y - 1600) mod 400 = y mod 400" by (metis mod_mult_self2)
qed

lemma mod_nest:
  "y mod 400 = 0 \<Longrightarrow> y mod (100::int) = 0"
  "y mod 100 = 0 \<Longrightarrow> y mod (4::int) = 0"
proof -
  have a: "(100::int) dvd 400" "(4::int) dvd 100" by simp_all
  show "y mod 400 = 0 \<Longrightarrow> y mod 100 = 0"
    using a(1) by (metis dvd_trans mod_eq_0_iff_dvd)
  show "y mod 100 = 0 \<Longrightarrow> y mod 4 = 0"
    using a(2) by (metis dvd_trans mod_eq_0_iff_dvd)
qed

lemma DayFromYear_step: "DayFromYear (y + 1) = DayFromYear y + DaysInYear y"
proof -
  have a: "(y - 1968) div 4 = (y - 1969) div 4 + (if y mod 4 = 0 then 1 else 0)"
    using div_succ [of 4 "y - 1969"] mod_shift(1) [of y] by simp
  have b: "(y - 1900) div 100 = (y - 1901) div 100 + (if y mod 100 = 0 then 1 else 0)"
    using div_succ [of 100 "y - 1901"] mod_shift(2) [of y] by simp
  have c: "(y - 1600) div 400 = (y - 1601) div 400 + (if y mod 400 = 0 then 1 else 0)"
    using div_succ [of 400 "y - 1601"] mod_shift(3) [of y] by simp
  have D: "DayFromYear (y + 1) =
      365 * (y - 1969) + (y - 1968) div 4 - (y - 1900) div 100 + (y - 1600) div 400"
    by (simp add: DayFromYear_def)
  show ?thesis
    unfolding D a b c using mod_nest [of y]
    by (auto simp: DayFromYear_def DaysInYear_def)
qed

lemma LeapFlag_cases: "LeapFlag y = 0 \<or> LeapFlag y = 1"
  by (simp add: LeapFlag_def)

lemma DaysInYear_LeapFlag: "DaysInYear y = 365 + LeapFlag y"
  by (simp add: DaysInYear_def LeapFlag_def)

lemma DayWithinYear_range:
  "0 \<le> DayWithinYear d \<and> DayWithinYear d < DaysInYear (YearFromDay d)"
  using YearFromDay_bounds [of d] DayFromYear_step [of "YearFromDay d"]
  by (simp add: DayWithinYear_def)

lemma MonthFromDay_range: "0 \<le> MonthFromDay d \<and> MonthFromDay d \<le> 11"
  by (simp add: MonthFromDay_def Let_def)

lemma DateFromDay_range: "1 \<le> DateFromDay d \<and> DateFromDay d \<le> 31"
proof -
  note r = DayWithinYear_range [of d]
  note l = LeapFlag_cases [of "YearFromDay d"]
  from r l show ?thesis
    unfolding DateFromDay_def MonthFromDay_def MonthStart_def Let_def DaysInYear_LeapFlag
    by auto
qed

lemma calendar_date_range:
  "0 \<le> MonthFromDay d" "MonthFromDay d \<le> 11" "1 \<le> DateFromDay d" "DateFromDay d \<le> 31"
  using MonthFromDay_range [of d] DateFromDay_range [of d] by simp_all

lemma same_year_less:
  assumes y: "YearFromDay a = YearFromDay b" and ab: "a < b"
  shows "MonthFromDay a < MonthFromDay b \<or>
         (MonthFromDay a = MonthFromDay b \<and> DateFromDay a < DateFromDay b)"
proof -
  define leap where "leap = LeapFlag (YearFromDay b)"
  define u where "u = DayWithinYear a"
  define v where "v = DayWithinYear b"
  have uv: "u < v" using y ab by (simp add: u_def v_def DayWithinYear_def)
  have l: "leap = 0 \<or> leap = 1" unfolding leap_def by (rule LeapFlag_cases)
  have r: "0 \<le> u" "v < 365 + leap"
    using DayWithinYear_range [of a] DayWithinYear_range [of b]
    by (simp_all add: u_def v_def leap_def DaysInYear_LeapFlag)
  show ?thesis
    unfolding DateFromDay_def MonthFromDay_def y Let_def
      u_def [symmetric] v_def [symmetric] leap_def [symmetric]
    using uv l r by (auto simp: MonthStart_def)
qed

lemma calendar_date_less:
  assumes "a < b"
  shows "YearFromDay a < YearFromDay b \<or>
         (YearFromDay a = YearFromDay b \<and>
            (MonthFromDay a < MonthFromDay b \<or>
             (MonthFromDay a = MonthFromDay b \<and> DateFromDay a < DateFromDay b)))"
proof (cases "YearFromDay a = YearFromDay b")
  case True
  with same_year_less [OF True assms] show ?thesis by simp
next
  case False
  with YearFromDay_mono [of a b] assms show ?thesis by simp
qed

lemma calendar_date_prev_year:
  assumes "calendar_date d = (y, 1, 1)"
  shows "calendar_date (d - 1) = (y - 1, 12, 31)"
proof -
  from assms have y: "YearFromDay d = y" and m: "MonthFromDay d = 0" and dt: "DateFromDay d = 1"
    by (simp_all add: calendar_date_def)
  from m dt have "DayWithinYear d = 0"
    by (simp add: DateFromDay_def MonthStart_def)
  with y have d: "d = DayFromYear y" by (simp add: DayWithinYear_def)
  have step: "DayFromYear y = DayFromYear (y - 1) + DaysInYear (y - 1)"
    using DayFromYear_step [of "y - 1"] by simp
  have len: "DaysInYear (y - 1) = 365 + LeapFlag (y - 1)"
    by (simp add: DaysInYear_def LeapFlag_def)
  have l: "LeapFlag (y - 1) = 0 \<or> LeapFlag (y - 1) = 1" by (simp add: LeapFlag_def)
  have "DayFromYear (y - 1) \<le> d - 1" "d - 1 < DayFromYear (y - 1 + 1)"
    using d step len l by auto
  then have py: "YearFromDay (d - 1) = y - 1" by (rule YearFromDay_unique)
  have "DayWithinYear (d - 1) = d - 1 - DayFromYear (y - 1)"
    by (simp add: DayWithinYear_def py)
  with d step len have w: "DayWithinYear (d - 1) = 364 + LeapFlag (y - 1)"
    by linarith
  have pm: "MonthFromDay (d - 1) = 11"
    using l by (auto simp: MonthFromDay_def py w Let_def)
  have pd: "DateFromDay (d - 1) = 31"
    by (simp add: DateFromDay_def pm py w MonthStart_def)
  from py pm pd show ?thesis by (simp add: calendar_date_def)
qed

section \<open>Arithmetic on Dates\<close>

text \<open>
  In a zone of fixed offset \<open>setDate(getDate() + n)\<close> moves a Date by \<open>n\<close> days, whatever
  month or year ends in between, and \<open>startOfWeek\<close> goes back to local midnight of the
  Monday on or before the local day.
\<close>

lemma MakeDay_roundtrip:
  "MakeDay (YearFromDay d) (MonthFromDay d) (DateFromDay d + n) = d + n"
proof -
  have r: "0 \<le> MonthFromDay d" "MonthFromDay d \<le> 11"
    using MonthFromDay_range [of d] by simp_all
  then have "MonthFromDay d div 12 = 0" "MonthFromDay d mod 12 = MonthFromDay d"
    by simp_all
  then show ?thesis
    by (simp add: MakeDay_def DateFromDay_def DayWithinYear_def Let_def)
qed

lemma setDate_getDate: "setDate tz t (getDate tz t + n) = t + n * msPerDay"
proof -
  have "(Day (t + tz) + n) * msPerDay + TimeWithinDay (t + tz) = (t + tz) + n * msPerDay"
    by (simp add: Day_def TimeWithinDay_def algebra_simps)
  then show ?thesis
    by (simp add: setDate_def getDate_def Let_def MakeDay_roundtrip)
qed

lemma addDays_eq: "addDays tz t n = t + n * msPerDay"
  by (simp add: addDays_def setDate_getDate)

lemma Day_add_days: "Day (t + n * msPerDay) = Day t + n"
  by (simp add: Day_def msPerDay_def)

lemma Day_shift: "Day (t + n * msPerDay + tz) = Day (t + tz) + n"
proof -
  have "t + n * msPerDay + tz = (t + tz) + n * msPerDay" by simp
  then show ?thesis using Day_add_days [of "t + tz" n] by metis
qed

lemma Day_mult: "Day (n * msPerDay) = n"
  by (simp add: Day_def msPerDay_def)

lemma getDay_add_days: "getDay tz (t + n * msPerDay) = (getDay tz t + n) mod 7"
proof -
  have "t + n * msPerDay + tz = (t + tz) + n * msPerDay" by simp
  then have "Day (t + n * msPerDay + tz) = Day (t + tz) + n"
    using Day_add_days [of "t + tz" n] by metis
  then show ?thesis
    by (simp add: getDay_def WeekDay_def mod_simps algebra_simps)
qed

lemma startOfWeek_Monday_eq:
  "startOfWeek tz 1 t =
     (Day (t + tz) - (WeekDay (Day (t + tz)) + 6) mod 7) * msPerDay - tz"
proof -
  define L where "L = Day (t + tz)"
  define diff where "diff = (if WeekDay L < 1 then 7 else 0) + WeekDay L - 1"
  have wd: "0 \<le> WeekDay L" "WeekDay L < 7" by (simp_all add: WeekDay_def)
  have diff: "diff = (WeekDay L + 6) mod 7"
    using wd unfolding diff_def by presburger
  have "setDate tz t (getDate tz t - diff) = t + (- diff) * msPerDay"
    using setDate_getDate [of tz t "- diff"] by simp
  moreover have "Day (t + (- diff) * msPerDay + tz) = L - diff"
    using Day_shift [of t "- diff" tz] by (simp add: L_def)
  ultimately have "startOfWeek tz 1 t = (L - diff) * msPerDay - tz"
    by (simp add: startOfWeek_def getDay_def setHours0_def Let_def L_def [symmetric]
        diff_def [symmetric])
  then show ?thesis by (simp add: diff L_def)
qed

lemma startOfWeek_props:
  fixes tz t :: int
  defines "w \<equiv> startOfWeek tz 1 t"
  shows "startOfWeek tz 1 w = w" and "getDay tz w = 1" and "TimeWithinDay (w + tz) = 0"
    and "w \<le> t" and "t - w < 7 * msPerDay"
proof -
  define L where "L = Day (t + tz)"
  define diff where "diff = (WeekDay L + 6) mod 7"
  have w: "w + tz = (L - diff) * msPerDay"
    by (simp add: w_def startOfWeek_Monday_eq L_def diff_def)
  have dw: "Day (w + tz) = L - diff"
    unfolding w by (rule Day_mult)
  have wdm: "WeekDay (L - diff) = 1"
    unfolding diff_def WeekDay_def by presburger
  show "getDay tz w = 1" by (simp add: getDay_def dw wdm)
  show "TimeWithinDay (w + tz) = 0" unfolding w by (simp add: TimeWithinDay_def)
  have "startOfWeek tz 1 w = (L - diff - (1 + 6) mod 7) * msPerDay - tz"
    unfolding startOfWeek_Monday_eq dw wdm by simp
  then show "startOfWeek tz 1 w = w" using w by simp
  have d: "0 \<le> diff" "diff \<le> 6" by (simp_all add: diff_def)
  have m: "0 \<le> TimeWithinDay (t + tz)" "TimeWithinDay (t + tz) < msPerDay"
    by (simp_all add: TimeWithinDay_def msPerDay_def)
  have t: "t + tz = L * msPerDay + TimeWithinDay (t + tz)"
    by (simp add: L_def Day_def TimeWithinDay_def)
  have e: "t - w = diff * msPerDay + TimeWithinDay (t + tz)"
    using w t by (simp add: algebra_simps)
  have p: "0 \<le> diff * msPerDay" "diff * msPerDay \<le> 6 * msPerDay"
    using d by (simp_all add: msPerDay_def)
  from e m p show "w \<le> t" by linarith
  from e m p show "t - w < 7 * msPerDay" by linarith
qed

section \<open>Date strings and their order\<close>

text \<open>
  For years of four digits the string \<open>YYYY-MM-DD\<close> of a day is below that of another
  day, in the order of \<open><\<close> on strings, exactly when the day is earlier; \<open>format\<close> of
  date-fns and \<open>formatDateToString\<close> then print the same string.
\<close>

lemma str_less_irrefl: "\<not> str_less s s"
  by (induction s) simp_all

lemma digit_code: "k < 10 \<Longrightarrow> (of_char (''0123456789'' ! k) :: nat) = 48 + k"
proof -
  assume "k < 10"
  then have "k = 0 \<or> k = 1 \<or> k = 2 \<or> k = 3 \<or> k = 4 \<or> k = 5 \<or> k = 6 \<or> k = 7 \<or> k = 8 \<or> k = 9"
    by arith
  then show ?thesis by (elim disjE) simp_all
qed

lemma digit_eq_iff:
  assumes "a < 10" "b < 10"
  shows "''0123456789'' ! a = ''0123456789'' ! b \<longleftrightarrow> a = b"
proof
  assume "''0123456789'' ! a = ''0123456789'' ! b"
  then have "(of_char (''0123456789'' ! a) :: nat) = of_char (''0123456789'' ! b)" by simp
  with assms show "a = b" by (simp add: digit_code)
qed simp

lemma string_of_nat_two_digits:
  assumes "n < 100"
  shows "padStart 2 (CHR ''0'') (string_of_nat n) = [''0123456789'' ! (n div 10), ''0123456789'' ! (n mod 10)]"
proof (cases "n < 10")
  case True
  then have "string_of_nat n = [''0123456789'' ! n]" by (subst string_of_nat.simps) simp
  with True show ?thesis by (simp add: padStart_def)
next
  case False
  with assms have d: "n div 10 < 10" by simp
  have "string_of_nat n = string_of_nat (n div 10) @ [''0123456789'' ! (n mod 10)]"
    using False by (subst string_of_nat.simps) simp
  also have "string_of_nat (n div 10) = [''0123456789'' ! (n div 10)]"
    using d by (subst string_of_nat.simps) simp
  finally show ?thesis by (simp add: padStart_def)
qed

lemma string_of_nat_four_digits:
  assumes "1000 \<le> n" "n < 10000"
  shows "string_of_nat n =
    [''0123456789'' ! (n div 10 div 10 div 10), ''0123456789'' ! (n div 10 div 10 mod 10),
     ''0123456789'' ! (n div 10 mod 10), ''0123456789'' ! (n mod 10)]"
proof -
  have s1: "string_of_nat n = string_of_nat (n div 10) @ [''0123456789'' ! (n mod 10)]"
    using assms by (subst string_of_nat.simps) simp
  have "10 \<le> n div 10" using assms by simp
  then have s2: "string_of_nat (n div 10) =
      string_of_nat (n div 10 div 10) @ [''0123456789'' ! (n div 10 mod 10)]"
    by (subst string_of_nat.simps) simp
  have "10 \<le> n div 10 div 10" using assms by simp
  then have s3: "string_of_nat (n div 10 div 10) =
      string_of_nat (n div 10 div 10 div 10) @ [''0123456789'' ! (n div 10 div 10 mod 10)]"
    by (subst string_of_nat.simps) simp
  have "n div 10 div 10 div 10 < 10" using assms by simp
  then have s4: "string_of_nat (n div 10 div 10 div 10) = [''0123456789'' ! (n div 10 div 10 div 10)]"
    by (subst string_of_nat.simps) simp
  show ?thesis unfolding s1 s2 s3 s4 by simp
qed

lemma four_digit_length:
  assumes "1000 \<le> n" "n < 10000"
  shows "length (string_of_nat n) = 4"
  by (simp add: string_of_nat_four_digits [OF assms])

lemma less_div_mod_10:
  fixes a b :: nat
  shows "a < b \<longleftrightarrow> a div 10 < b div 10 \<or> (a div 10 = b div 10 \<and> a mod 10 < b mod 10)"
proof -
  define p q p' q' where "p = a div 10" and "q = a mod 10" and "p' = b div 10" and "q' = b mod 10"
  have a: "a = 10 * p + q" and b: "b = 10 * p' + q'" and r: "q < 10" "q' < 10"
    by (simp_all add: p_def q_def p'_def q'_def)
  have "10 * p + q < 10 * p' + q' \<longleftrightarrow> p < p' \<or> (p = p' \<and> q < q')"
    using r by arith
  then show ?thesis unfolding a b using r
    by (simp add: p_def q_def p'_def q'_def)
qed

lemma eq_div_mod_10:
  fixes a b :: nat
  shows "a = b \<longleftrightarrow> a div 10 = b div 10 \<and> a mod 10 = b mod 10"
  by (metis div_mult_mod_eq)

lemma str_less_digit:
  assumes "a < 10" "b < 10"
  shows "str_less (''0123456789'' ! a # r) (''0123456789'' ! b # s)
           \<longleftrightarrow> a < b \<or> (a = b \<and> str_less r s)"
  using assms by (auto simp: digit_eq_iff digit_code)

lemma str_less_two_digits:
  assumes "a < 100" "b < 100"
  shows "str_less (padStart 2 (CHR ''0'') (string_of_nat a) @ r)
                  (padStart 2 (CHR ''0'') (string_of_nat b) @ s)
           \<longleftrightarrow> a < b \<or> (a = b \<and> str_less r s)"
proof -
  have d: "a div 10 < 10" "a mod 10 < 10" "b div 10 < 10" "b mod 10 < 10"
    using assms by simp_all
  have "str_less (padStart 2 (CHR ''0'') (string_of_nat a) @ r)
                 (padStart 2 (CHR ''0'') (string_of_nat b) @ s)
        \<longleftrightarrow> a div 10 < b div 10 \<or> (a div 10 = b div 10 \<and>
              (a mod 10 < b mod 10 \<or> (a mod 10 = b mod 10 \<and> str_less r s)))"
    unfolding string_of_nat_two_digits [OF assms(1)] string_of_nat_two_digits [OF assms(2)]
    by (simp only: append_Cons append_Nil str_less_digit d)
  also have "\<dots> \<longleftrightarrow> a < b \<or> (a = b \<and> str_less r s)"
    using less_div_mod_10 [of a b] eq_div_mod_10 [of a b] by blast
  finally show ?thesis .
qed

lemma str_less_four_digits:
  assumes "1000 \<le> a" "a < 10000" "1000 \<le> b" "b < 10000"
  shows "str_less (string_of_nat a @ r) (string_of_nat b @ s)
           \<longleftrightarrow> a < b \<or> (a = b \<and> str_less r s)"
proof -
  define a1 a2 b1 b2 where "a1 = a div 10" and "a2 = a div 10 div 10"
    and "b1 = b div 10" and "b2 = b div 10 div 10"
  have d: "a2 div 10 < 10" "a2 mod 10 < 10" "a1 mod 10 < 10" "a mod 10 < 10"
    "b2 div 10 < 10" "b2 mod 10 < 10" "b1 mod 10 < 10" "b mod 10 < 10"
    using assms by (simp_all add: a1_def a2_def b1_def b2_def)
  have sa: "string_of_nat a = [''0123456789'' ! (a2 div 10), ''0123456789'' ! (a2 mod 10),
      ''0123456789'' ! (a1 mod 10), ''0123456789'' ! (a mod 10)]"
    using string_of_nat_four_digits [OF assms(1,2)] by (simp add: a1_def a2_def)
  have sb: "string_of_nat b = [''0123456789'' ! (b2 div 10), ''0123456789'' ! (b2 mod 10),
      ''0123456789'' ! (b1 mod 10), ''0123456789'' ! (b mod 10)]"
    using string_of_nat_four_digits [OF assms(3,4)] by (simp add: b1_def b2_def)
  have "str_less (string_of_nat a @ r) (string_of_nat b @ s)
        \<longleftrightarrow> a2 div 10 < b2 div 10 \<or> (a2 div 10 = b2 div 10 \<and>
             (a2 mod 10 < b2 mod 10 \<or> (a2 mod 10 = b2 mod 10 \<and>
             (a1 mod 10 < b1 mod 10 \<or> (a1 mod 10 = b1 mod 10 \<and>
             (a mod 10 < b mod 10 \<or> (a mod 10 = b mod 10 \<and> str_less r s)))))))"
    unfolding sa sb by (simp only: append_Cons append_Nil str_less_digit d)
  also have "\<dots> \<longleftrightarrow> a2 < b2 \<or> (a2 = b2 \<and>
             (a1 mod 10 < b1 mod 10 \<or> (a1 mod 10 = b1 mod 10 \<and>
             (a mod 10 < b mod 10 \<or> (a mod 10 = b mod 10 \<and> str_less r s)))))"
    using less_div_mod_10 [of a2 b2] eq_div_mod_10 [of a2 b2] by blast
  also have "\<dots> \<longleftrightarrow> a1 < b1 \<or> (a1 = b1 \<and>
             (a mod 10 < b mod 10 \<or> (a mod 10 = b mod 10 \<and> str_less r s)))"
    using less_div_mod_10 [of a1 b1] eq_div_mod_10 [of a1 b1]
    unfolding a1_def a2_def b1_def b2_def by blast
  also have "\<dots> \<longleftrightarrow> a < b \<or> (a = b \<and> str_less r s)"
    using less_div_mod_10 [of a b] eq_div_mod_10 [of a b]
    unfolding a1_def b1_def by blast
  finally show ?thesis .
qed

lemma str_less_ymd:
  assumes "1000 \<le> y" "y \<le> 9999" "1 \<le> m" "m \<le> 12" "1 \<le> d" "d \<le> 31"
    and "1000 \<le> y'" "y' \<le> 9999" "1 \<le> m'" "m' \<le> 12" "1 \<le> d'" "d' \<le> 31"
  shows "str_less (ymd_string (y, m, d)) (ymd_string (y', m', d'))
           \<longleftrightarrow> y < y' \<or> (y = y' \<and> (m < m' \<or> (m = m' \<and> d < d')))"
proof -
  let ?p = "\<lambda>n. padStart 2 (CHR ''0'') (string_of_nat (nat n))"
  have f: "ymd_string (y, m, d) = string_of_nat (nat y) @ (CHR ''-'' # (?p m @ (CHR ''-'' # (?p d @ []))))"
    "ymd_string (y', m', d') = string_of_nat (nat y') @ (CHR ''-'' # (?p m' @ (CHR ''-'' # (?p d' @ []))))"
    using assms by (simp_all add: ymd_string_def string_of_int_def)
  have Y: "\<And>r s. str_less (string_of_nat (nat y) @ r) (string_of_nat (nat y') @ s)
           \<longleftrightarrow> nat y < nat y' \<or> (nat y = nat y' \<and> str_less r s)"
    using assms by (intro str_less_four_digits) simp_all
  have M: "\<And>r s. str_less (?p m @ r) (?p m' @ s)
           \<longleftrightarrow> nat m < nat m' \<or> (nat m = nat m' \<and> str_less r s)"
    using assms by (intro str_less_two_digits) simp_all
  have D: "\<And>r s. str_less (?p d @ r) (?p d' @ s)
           \<longleftrightarrow> nat d < nat d' \<or> (nat d = nat d' \<and> str_less r s)"
    using assms by (intro str_less_two_digits) simp_all
  have "str_less (ymd_string (y, m, d)) (ymd_string (y', m', d'))
      \<longleftrightarrow> nat y < nat y' \<or> (nat y = nat y' \<and>
            (nat m < nat m' \<or> (nat m = nat m' \<and> nat d < nat d')))"
    unfolding f Y by (simp add: M D del: append_Nil2)
  with assms show ?thesis by auto
qed

lemma ymd_string_shape:
  assumes "1000 \<le> y" "y \<le> 9999" "1 \<le> m" "m \<le> 12" "1 \<le> d" "d \<le> 31"
  shows "length (ymd_string (y, m, d)) = 10 \<and> ymd_string (y, m, d) ! 4 = CHR ''-'' \<and>
         ymd_string (y, m, d) ! 7 = CHR ''-''"
proof -
  have Y: "1000 \<le> nat y" "nat y < 10000" and M: "nat m < 100" and D: "nat d < 100"
    using assms by simp_all
  show ?thesis
    using assms
    by (simp add: ymd_string_def string_of_int_def string_of_nat_four_digits [OF Y]
        string_of_nat_two_digits [OF M] string_of_nat_two_digits [OF D])
qed

lemma date_string_order:
  assumes "1000 \<le> YearFromDay a" "YearFromDay a \<le> 9999"
    and "1000 \<le> YearFromDay b" "YearFromDay b \<le> 9999"
  shows "str_less (ymd_string (calendar_date a)) (ymd_string (calendar_date b)) \<longleftrightarrow> a < b"
proof -
  let ?lex = "\<lambda>a b. YearFromDay a < YearFromDay b \<or>
         (YearFromDay a = YearFromDay b \<and>
            (MonthFromDay a < MonthFromDay b \<or>
             (MonthFromDay a = MonthFromDay b \<and> DateFromDay a < DateFromDay b)))"
  have s: "str_less (ymd_string (calendar_date a)) (ymd_string (calendar_date b)) \<longleftrightarrow> ?lex a b"
    unfolding calendar_date_def
    using assms calendar_date_range [of a] calendar_date_range [of b]
    by (subst str_less_ymd) auto
  have "?lex a b \<longleftrightarrow> a < b"
  proof
    assume "a < b" then show "?lex a b" by (rule calendar_date_less)
  next
    assume l: "?lex a b"
    show "a < b"
    proof (rule ccontr)
      assume "\<not> a < b"
      then consider "a = b" | "b < a" by linarith
      then show False
      proof cases
        case 1 with l show False by simp
      next
        case 2
        from calendar_date_less [OF 2] l show False by auto
      qed
    qed
  qed
  with s show ?thesis by simp
qed

lemma formatDateToString_ymd:
  "formatDateToString tz t =
     string_of_int (YearFromDay (Day (t + tz))) @ ''-''
       @ padStart 2 (CHR ''0'') (string_of_int (MonthFromDay (Day (t + tz)) + 1)) @ ''-''
       @ padStart 2 (CHR ''0'') (string_of_int (DateFromDay (Day (t + tz))))"
  by (simp add: formatDateToString_def getFullYear_def getMonth_def getDate_def Let_def)

lemma formatDateToString_calendar:
  "formatDateToString tz t = ymd_string (calendar_date (Day (t + tz)))"
  by (simp add: formatDateToString_ymd ymd_string_def calendar_date_def)

lemma format_ymd_calendar:
  assumes "1000 \<le> getFullYear tz t" "getFullYear tz t \<le> 9999"
  shows "format_ymd tz t = ymd_string (calendar_date (Day (t + tz)))"
proof -
  have l: "length (string_of_nat (nat (getFullYear tz t))) = 4"
    using assms by (intro four_digit_length) simp_all
  have m: "0 \<le> getMonth tz t + 1" "1 \<le> getDate tz t"
    using calendar_date_range [of "Day (t + tz)"] by (simp_all add: getMonth_def getDate_def)
  from assms l m show ?thesis
    by (simp add: format_ymd_def ymd_string_def calendar_date_def addLeadingZeros_def
        string_of_int_def padStart_def getFullYear_def getMonth_def getDate_def Let_def)
qed

lemma getAppDate_eq:
  "getAppDate tz clock arg =
     (let now = (case arg of Some d \<Rightarrow> d | None \<Rightarrow> clock) in
      if getHours tz now < 3 then formatDateToString tz (now - msPerDay)
      else formatDateToString tz now)"
  using setDate_getDate [of tz _ "- 1"] by (simp add: getAppDate_def Let_def)

lemma getAppDate_calendar:
  "getAppDate tz clock None = ymd_string (calendar_date (app_day tz clock))"
proof -
  have "Day (clock - msPerDay + tz) = Day (clock + tz) - 1"
    using Day_shift [of clock "- 1" tz] by simp
  then show ?thesis
    by (simp add: getAppDate_eq getHours_def formatDateToString_calendar app_day_def)
qed

lemma getAppDate_Some_calendar:
  "getAppDate tz clock (Some t) = ymd_string (calendar_date (app_day tz t))"
proof -
  have "Day (t - msPerDay + tz) = Day (t + tz) - 1"
    using Day_shift [of t "- 1" tz] by simp
  then show ?thesis
    by (simp add: getAppDate_eq getHours_def formatDateToString_calendar app_day_def)
qed

section \<open>The loop and the result of getWeeklyStats\<close>

text \<open>
  The loop builds the seven days in order and counts those with entries; the fields of
  the result follow.
\<close>

lemma weekLoop_eq:
  "i \<le> 7 \<Longrightarrow>
   weekLoop tz ws allData i dd dl =
     (dd @ map (dayData_at tz ws allData) [i..<7],
      dl + length (filter (\<lambda>d. entries d \<noteq> []) (map (dayData_at tz ws allData) [i..<7])))"
proof (induction "7 - i" arbitrary: i dd dl)
  case 0
  then have "i = 7" by simp
  then show ?case by (subst weekLoop.simps) simp
next
  case (Suc k)
  then have lt: "i < 7" and k: "k = 7 - Suc i" and le: "Suc i \<le> 7" by simp_all
  have up: "[i..<7] = i # [Suc i..<7]" using lt by (simp add: upt_conv_Cons)
  have step: "weekLoop tz ws allData i dd dl =
      weekLoop tz ws allData (Suc i) (dd @ [dayData_at tz ws allData i])
        (if entries (dayData_at tz ws allData i) \<noteq> [] then dl + 1 else dl)"
    by (subst weekLoop.simps) (simp add: lt dayData_at_def Let_def)
  show ?case
    unfolding step Suc.hyps(1) [OF k le] up by simp
qed

lemma weekLoop_0:
  "weekLoop tz ws allData 0 [] 0 =
     (map (dayData_at tz ws allData) [0..<7],
      length (filter (\<lambda>d. entries d \<noteq> []) (map (dayData_at tz ws allData) [0..<7])))"
  by (simp add: weekLoop_eq)

lemma foldl_plus: "foldl (\<lambda>sum day. sum + f day) (a :: rat) xs = a + sum_list (map f xs)"
  by (induction xs arbitrary: a) simp_all

lemma sumTotals_Nil: "sumTotals [] = \<lparr>calories = 0, protein = 0\<rparr>"
  by (simp add: sumTotals_def)

lemma or_zero_case: "or_zero x = (case x of None \<Rightarrow> 0 | Some v \<Rightarrow> v)"
  by (cases x) (simp_all add: or_zero_def)

lemma sumTotals_foldl:
  "foldl (\<lambda>acc entry.
              \<lparr>calories = calories acc + or_zero (entry_calories entry),
               protein = protein acc + or_zero (entry_protein entry)\<rparr>) a es =
     \<lparr>calories = calories a + (\<Sum>e\<leftarrow>es. or_zero (entry_calories e)),
      protein = protein a + (\<Sum>e\<leftarrow>es. or_zero (entry_protein e))\<rparr>"
proof (induction es arbitrary: a)
  case Nil
  show ?case by simp
next
  case (Cons e es)
  show ?case
    by (simp add: Cons.IH add.assoc)
qed

lemma sumTotals_or_zero:
  "sumTotals es = \<lparr>calories = (\<Sum>e\<leftarrow>es. or_zero (entry_calories e)),
                   protein = (\<Sum>e\<leftarrow>es. or_zero (entry_protein e))\<rparr>"
  unfolding sumTotals_def sumTotals_foldl by simp

lemma sumTotals_sums:
  "calories (sumTotals es) = (\<Sum>e\<leftarrow>es. case entry_calories e of None \<Rightarrow> 0 | Some v \<Rightarrow> v)"
  "protein (sumTotals es) = (\<Sum>e\<leftarrow>es. case entry_protein e of None \<Rightarrow> 0 | Some v \<Rightarrow> v)"
  unfolding sumTotals_or_zero by (simp_all add: or_zero_case)

lemma getWeeklyStats_Inl:
  "getDataForRange (format_ymd tz ws) (format_ymd tz (addDays tz ws 6)) = Inl e \<Longrightarrow>
   getWeeklyStats tz clock ws t m getDataForRange = Inl e"
  by (simp add: getWeeklyStats_def Let_def)

lemma getWeeklyStats_Inr:
  assumes "getDataForRange (format_ymd tz ws) (format_ymd tz (addDays tz ws 6)) = Inr allData"
  shows "\<exists>r. getWeeklyStats tz clock ws t m getDataForRange = Inr r \<and>
     dailyData r = map (dayData_at tz ws allData) [0..<7] \<and>
     daysLogged r = length (filter (\<lambda>d. entries d \<noteq> []) (dailyData r)) \<and>
     calories (averages r) =
       (let c = completedDaysWithFood (getAppDate tz clock None) (dailyData r) in
        if c = [] then 0 else Math_round (sum_list (map calories c) / of_nat (length c))) \<and>
     protein (averages r) =
       (let c = completedDaysWithFood (getAppDate tz clock None) (dailyData r) in
        if c = [] then 0 else Math_round (sum_list (map protein c) / of_nat (length c))) \<and>
     daily (deficit r) = calories (averages r) - m \<and>
     weekly (deficit r) =
       (let c = completedDaysWithFood (getAppDate tz clock None) (dailyData r) in
        if c = [] then 0 else daily (deficit r) * of_nat (length c))"
  using assms
  by (simp add: getWeeklyStats_def Let_def weekLoop_0 foldl_plus completedDaysWithFood_def)

lemma entries_dayData_at: "entries (dayData_at tz ws allData i) = fetched tz ws allData i"
  by (simp add: dayData_at_def fetched_def Let_def)

lemma date_dayData_at: "date (dayData_at tz ws allData i) = format_ymd tz (ws + int i * msPerDay)"
  by (simp add: dayData_at_def Let_def addDays_eq)

lemma calories_dayData_at: "calories (dayData_at tz ws allData i) = calories (sumTotals (fetched tz ws allData i))"
  by (simp add: dayData_at_def fetched_def Let_def)

lemma protein_dayData_at: "protein (dayData_at tz ws allData i) = protein (sumTotals (fetched tz ws allData i))"
  by (simp add: dayData_at_def fetched_def Let_def)

lemma dayData_at_empty:
  "dayData_at tz ws Map.empty i =
     \<lparr>calories = 0, protein = 0, date = format_ymd tz (addDays tz ws (int i)), entries = []\<rparr>"
  by (simp add: dayData_at_def sumTotals_Nil Let_def)

lemma dayData_at_cong:
  assumes "other (format_ymd tz (ws + int i * msPerDay)) = allData (format_ymd tz (ws + int i * msPerDay))"
  shows "dayData_at tz ws other i = dayData_at tz ws allData i"
  using assms by (simp add: dayData_at_def addDays_eq Let_def)

lemma date_below_app_date:
  assumes "1000 \<le> YearFromDay (Day (ws + tz) + int i)"
    and "YearFromDay (Day (ws + tz) + int i) \<le> 9999"
    and "1000 \<le> YearFromDay (app_day tz clock)" and "YearFromDay (app_day tz clock) \<le> 9999"
  shows "str_less (date (dayData_at tz ws allData i)) (getAppDate tz clock None)
           \<longleftrightarrow> Day (ws + tz) + int i < app_day tz clock"
proof -
  have d: "Day (ws + int i * msPerDay + tz) = Day (ws + tz) + int i"
    by (rule Day_shift)
  have "format_ymd tz (ws + int i * msPerDay) = ymd_string (calendar_date (Day (ws + tz) + int i))"
    using assms(1,2) format_ymd_calendar [of tz "ws + int i * msPerDay"]
    by (simp add: getFullYear_def d)
  then show ?thesis
    using date_string_order [OF assms]
    by (simp add: date_dayData_at getAppDate_calendar)
qed

lemma getWeeklyStats_no_completed:
  assumes "getWeeklyStats tz clock ws t m getDataForRange = Inr r"
    and "completedDaysWithFood (getAppDate tz clock None) (dailyData r) = []"
  shows "calories (averages r) = 0 \<and> protein (averages r) = 0 \<and>
         weekly (deficit r) = 0 \<and> daily (deficit r) = - m"
proof (cases "getDataForRange (format_ymd tz ws) (format_ymd tz (addDays tz ws 6))")
  case (Inl e)
  then show ?thesis using assms(1) by (simp add: getWeeklyStats_Inl)
next
  case (Inr allData)
  from getWeeklyStats_Inr [where getDataForRange = getDataForRange and tz = tz and ws = ws
      and allData = allData and clock = clock and t = t and m = m, OF Inr] assms
  show ?thesis
    by (auto simp: Let_def)
qed

lemma length_filter_single:
  assumes "k < n" "P k" "\<And>i. i < n \<Longrightarrow> i \<noteq> k \<Longrightarrow> \<not> P i"
  shows "length (filter P [0..<n]) = 1"
proof -
  have "{x. P x} \<inter> set [0..<n] = {k}" using assms by fastforce
  then show ?thesis by (simp add: distinct_length_filter)
qed

lemma Math_round_of_int: "Math_round (of_int n) = of_int n"
proof -
  have "\<lfloor>(of_int n :: rat) + 1 / 2\<rfloor> = n"
    by (rule floor_unique) simp_all
  then show ?thesis by (simp add: Math_round_def)
qed

lemma Math_round_numeral: "Math_round (numeral k) = numeral k"
  using Math_round_of_int [of "numeral k"] by simp

section \<open>The examples evaluated\<close>

text \<open>
  The dates and results of the example weeks, computed once and used by the witnesses.
\<close>

lemma string_of_nat_0: "string_of_nat 0 = ''0''"
  by (subst string_of_nat.simps) simp

lemma string_of_nat_1: "string_of_nat (Suc 0) = ''1''"
  by (subst string_of_nat.simps) simp

lemmas string_of_nat_numeral = string_of_nat.simps [of "numeral k"] for k

lemmas string_evals =
  addLeadingZeros_def padStart_def string_of_int_def string_of_nat_0 string_of_nat_1
  string_of_nat_numeral

lemma replicate_2_3: "replicate 2 c = [c, c]" "replicate 3 c = [c, c, c]"
  by (simp_all add: numeral_2_eq_2 numeral_3_eq_3)

lemma civil_examples:
  "YearFromDay 19722 = 2023" "MonthFromDay 19722 = 11" "DateFromDay 19722 = 31"
  "YearFromDay 19723 = 2024" "MonthFromDay 19723 = 0" "DateFromDay 19723 = 1"
  "YearFromDay 19730 = 2024" "MonthFromDay 19730 = 0" "DateFromDay 19730 = 8"
  "YearFromDay 19731 = 2024" "MonthFromDay 19731 = 0" "DateFromDay 19731 = 9"
  "YearFromDay 19732 = 2024" "MonthFromDay 19732 = 0" "DateFromDay 19732 = 10"
  "YearFromDay 19733 = 2024" "MonthFromDay 19733 = 0" "DateFromDay 19733 = 11"
  "YearFromDay 19734 = 2024" "MonthFromDay 19734 = 0" "DateFromDay 19734 = 12"
  "YearFromDay 19735 = 2024" "MonthFromDay 19735 = 0" "DateFromDay 19735 = 13"
  "YearFromDay 19736 = 2024" "MonthFromDay 19736 = 0" "DateFromDay 19736 = 14"
  "YearFromDay 19737 = 2024" "MonthFromDay 19737 = 0" "DateFromDay 19737 = 15"
  "YearFromDay 19738 = 2024" "MonthFromDay 19738 = 0" "DateFromDay 19738 = 16"
  by (simp_all add: DateFromDay_def MonthStart_def MonthFromDay_def DayWithinYear_def
      YearFromDay_def DayFromYear_def LeapFlag_def DaysInYear_def Let_def)

lemma WeekDay_examples: "WeekDay 19733 = 4" "WeekDay 19730 = 1" "WeekDay 19736 = 0" "WeekDay 19737 = 1"
  by (simp_all add: WeekDay_def)

lemma upt_0_7: "[0..<7] = [0, 1, 2, 3, 4, 5, 6 :: nat]"
  by (simp add: upt_rec)

lemma less_7_cases: "i < (7::nat) \<Longrightarrow> i = 0 \<or> i = 1 \<or> i = 2 \<or> i = 3 \<or> i = 4 \<or> i = 5 \<or> i = 6"
  by arith

lemma example_dates:
  "format_ymd 0 example_week = ''2024-01-08''"
  "format_ymd 0 (example_week + msPerDay) = ''2024-01-09''"
  "format_ymd 0 (example_week + 2 * msPerDay) = ''2024-01-10''"
  "format_ymd 0 (example_week + 3 * msPerDay) = ''2024-01-11''"
  "format_ymd 0 (example_week + 4 * msPerDay) = ''2024-01-12''"
  "format_ymd 0 (example_week + 5 * msPerDay) = ''2024-01-13''"
  "format_ymd 0 (example_week + 6 * msPerDay) = ''2024-01-14''"
  by (simp_all add: format_ymd_def getFullYear_def getMonth_def getDate_def Day_def
      example_week_def msPerDay_def civil_examples string_evals)

lemma example_today: "getAppDate 0 example_clock None = ''2024-01-11''"
  by (simp add: getAppDate_eq formatDateToString_ymd getHours_def HourFromTime_def Day_def
      example_clock_def msPerDay_def msPerHour_def civil_examples string_evals)

lemma example_app_day: "app_day 0 example_clock = 19733"
  by (simp add: app_day_def example_clock_def HourFromTime_def Day_def msPerDay_def msPerHour_def)

lemma example_week_day: "Day example_week = 19730"
  by (simp add: example_week_def Day_def msPerDay_def)

lemma example_days:
  "map (dayData_at 0 example_week example_data) [0..<7] =
     [\<lparr>calories = 1800, protein = 120, date = ''2024-01-08'', entries = [example_entry 1800 120]\<rparr>,
      \<lparr>calories = 2000, protein = 150, date = ''2024-01-09'', entries = [example_entry 2000 150]\<rparr>,
      \<lparr>calories = 2200, protein = 150, date = ''2024-01-10'',
         entries = [example_entry 1200 80, example_entry 1000 70]\<rparr>,
      \<lparr>calories = 500, protein = 30, date = ''2024-01-11'', entries = [example_entry 500 30]\<rparr>,
      \<lparr>calories = 0, protein = 0, date = ''2024-01-12'', entries = []\<rparr>,
      \<lparr>calories = 0, protein = 0, date = ''2024-01-13'', entries = []\<rparr>,
      \<lparr>calories = 0, protein = 0, date = ''2024-01-14'', entries = []\<rparr>]"
  by (simp add: upt_0_7 dayData_at_def addDays_eq example_dates example_data_def
      sumTotals_def or_zero_def example_entry_def Let_def)

lemma example_completed:
  "completedDaysWithFood ''2024-01-11'' (map (dayData_at 0 example_week example_data) [0..<7]) =
     [\<lparr>calories = 1800, protein = 120, date = ''2024-01-08'', entries = [example_entry 1800 120]\<rparr>,
      \<lparr>calories = 2000, protein = 150, date = ''2024-01-09'', entries = [example_entry 2000 150]\<rparr>,
      \<lparr>calories = 2200, protein = 150, date = ''2024-01-10'',
         entries = [example_entry 1200 80, example_entry 1000 70]\<rparr>]"
  unfolding example_days by (simp add: completedDaysWithFood_def)

lemma example_fetched_today_only:
  "fetched 0 example_week example_today_only 0 = []"
  "fetched 0 example_week example_today_only (Suc 0) = []"
  "fetched 0 example_week example_today_only 2 = []"
  "fetched 0 example_week example_today_only 3 = [example_entry 500 30]"
  "fetched 0 example_week example_today_only 4 = []"
  "fetched 0 example_week example_today_only 5 = []"
  "fetched 0 example_week example_today_only 6 = []"
  by (simp_all add: fetched_def addDays_eq example_dates example_today_only_def)

lemma example_fetched:
  "fetched 0 example_week example_data 0 = [example_entry 1800 120]"
  "fetched 0 example_week example_data (Suc 0) = [example_entry 2000 150]"
  "fetched 0 example_week example_data 2 = [example_entry 1200 80, example_entry 1000 70]"
  "fetched 0 example_week example_data 3 = [example_entry 500 30]"
  "fetched 0 example_week example_data 4 = []"
  "fetched 0 example_week example_data 5 = []"
  "fetched 0 example_week example_data 6 = []"
  by (simp_all add: fetched_def addDays_eq example_dates example_data_def)

lemma example_parse: "new_Date_string ''2024-01-11'' = Some (19733 * msPerDay)"
  by (simp add: new_Date_string_def MakeDay_def DayFromYear_def MonthStart_def LeapFlag_def
      DaysInYear_def Let_def)

lemma example_night_fields:
  "Day example_night = 19737" "TimeWithinDay example_night = 3600000"
  "HourFromTime example_night = 1" "Day (example_night - msPerDay) = 19736"
  by (simp_all add: example_night_def Day_def TimeWithinDay_def HourFromTime_def
      msPerDay_def msPerHour_def)

lemma example_night_iso: "toISOString example_night = ''2024-01-15T01:00:00.000Z''"
  by (simp add: toISOString_def example_night_fields civil_examples msPerHour_def
      string_evals replicate_2_3 Let_def)

lemma example_night_utc_date: "getTodayDate_Dashboard example_night = ''2024-01-15''"
  by (simp add: getTodayDate_Dashboard_def example_night_iso)

lemma example_night_app_date: "getAppDate 0 example_night None = ''2024-01-14''"
  by (simp add: getAppDate_eq getHours_def example_night_fields formatDateToString_ymd
      civil_examples string_evals)

lemma example_night_parses:
  "new_Date_string ''2024-01-15'' = Some (19737 * msPerDay)"
  "new_Date_string ''2024-01-14'' = Some (19736 * msPerDay)"
  by (simp_all add: new_Date_string_def MakeDay_def DayFromYear_def MonthStart_def LeapFlag_def
      DaysInYear_def Let_def)

lemma example_night_week_starts:
  "getWeekStart 0 (DateObj (19737 * msPerDay)) = Some (19737 * msPerDay)"
  "getWeekStart 0 (DateObj (19736 * msPerDay)) = Some example_week"
  by (simp_all add: getWeekStart_def startOfWeek_Monday_eq Day_mult WeekDay_examples
      example_week_def)

lemma example_night_formats:
  "format_ymd 0 (19737 * msPerDay) = ''2024-01-15''"
  "format_ymd 0 (example_week + 7 * msPerDay) = ''2024-01-15''"
  by (simp_all add: format_ymd_def getFullYear_def getMonth_def getDate_def Day_def
      example_week_def msPerDay_def civil_examples string_evals)

section \<open>The app date\<close>

text \<open>
  Claim C5.  For an instant \<open>t\<close>, \<open>getAppDate\<close> is the \<open>YYYY-MM-DD\<close> rendering of the
  civil date of the local day of \<open>t\<close> when the local hour is at least 3, and of the day
  before it when the local hour is 0, 1 or 2; the local day is read from local fields,
  never from UTC ones.  With no argument the clock is used.  On a January 1 before 3 AM
  the result is December 31 of the year before.  For a year of four digits the result
  has ten characters, with a hyphen after the year and after the month.
\<close>

theorem getAppDate_three_am_cutoff:
  "getAppDate tz clock (Some t) = ymd_string (calendar_date (app_day tz t)) \<and>
   getAppDate tz clock None = getAppDate tz clock (Some clock) \<and>
   (\<forall>y. calendar_date (Day (t + tz)) = (y, 1, 1) \<and> HourFromTime (t + tz) < 3 \<longrightarrow>
        getAppDate tz clock (Some t) = ymd_string (y - 1, 12, 31)) \<and>
   (1000 \<le> YearFromDay (app_day tz t) \<and> YearFromDay (app_day tz t) \<le> 9999 \<longrightarrow>
        length (getAppDate tz clock (Some t)) = 10 \<and>
        getAppDate tz clock (Some t) ! 4 = CHR ''-'' \<and>
        getAppDate tz clock (Some t) ! 7 = CHR ''-'')"
proof -
  note main = getAppDate_Some_calendar [of tz clock t]
  have "getAppDate tz clock None = getAppDate tz clock (Some clock)"
    by (simp add: getAppDate_def)
  moreover have "getAppDate tz clock (Some t) = ymd_string (y - 1, 12, 31)"
    if "calendar_date (Day (t + tz)) = (y, 1, 1)" and "HourFromTime (t + tz) < 3" for y
    using that calendar_date_prev_year [of "Day (t + tz)" y] by (simp add: main app_day_def)
  moreover have "length (getAppDate tz clock (Some t)) = 10 \<and>
        getAppDate tz clock (Some t) ! 4 = CHR ''-'' \<and>
        getAppDate tz clock (Some t) ! 7 = CHR ''-''"
    if "1000 \<le> YearFromDay (app_day tz t)" and "YearFromDay (app_day tz t) \<le> 9999"
    unfolding main calendar_date_def
    using that calendar_date_range [of "app_day tz t"]
    by (intro ymd_string_shape) simp_all
  ultimately show ?thesis using main by blast
qed

theorem getAppDate_three_am_cutoff_witness:
  "getAppDate 0 0 (Some (19723 * msPerDay + 2 * msPerHour)) = ''2023-12-31'' \<and>
   getAppDate 0 0 (Some (19738 * msPerDay + 2 * msPerHour + 59 * 60000)) = ''2024-01-15'' \<and>
   getAppDate 0 0 (Some (19738 * msPerDay + 3 * msPerHour)) = ''2024-01-16'' \<and>
   getAppDate (- 8 * msPerHour) 0 (Some (19738 * msPerDay + 4 * msPerHour)) = ''2024-01-15'' \<and>
   length (getAppDate 0 0 (Some (19738 * msPerDay + 3 * msPerHour))) = 10"
proof -
  have d: "Day (19723 * msPerDay + 2 * msPerHour + 0) = 19723"
    and h: "HourFromTime (19723 * msPerDay + 2 * msPerHour + 0) < 3"
    by (simp_all add: Day_def HourFromTime_def msPerDay_def msPerHour_def)
  have c: "calendar_date (Day (19723 * msPerDay + 2 * msPerHour + 0)) = (2024, 1, 1)"
    unfolding d by (simp add: calendar_date_def civil_examples)
  from getAppDate_three_am_cutoff [of 0 0 "19723 * msPerDay + 2 * msPerHour"] c h
  have "getAppDate 0 0 (Some (19723 * msPerDay + 2 * msPerHour)) = ymd_string (2024 - 1, 12, 31)"
    by blast
  then have a1: "getAppDate 0 0 (Some (19723 * msPerDay + 2 * msPerHour)) = ''2023-12-31''"
    by (simp add: ymd_string_def string_evals)
  have a2: "getAppDate 0 0 (Some (19738 * msPerDay + 2 * msPerHour + 59 * 60000)) = ''2024-01-15''"
    using getAppDate_three_am_cutoff [of 0 0 "19738 * msPerDay + 2 * msPerHour + 59 * 60000"]
    by (simp add: app_day_def Day_def HourFromTime_def msPerDay_def msPerHour_def
        calendar_date_def civil_examples ymd_string_def string_evals)
  have a3: "getAppDate 0 0 (Some (19738 * msPerDay + 3 * msPerHour)) = ''2024-01-16''"
    using getAppDate_three_am_cutoff [of 0 0 "19738 * msPerDay + 3 * msPerHour"]
    by (simp add: app_day_def Day_def HourFromTime_def msPerDay_def msPerHour_def
        calendar_date_def civil_examples ymd_string_def string_evals)
  have a4: "getAppDate (- 8 * msPerHour) 0 (Some (19738 * msPerDay + 4 * msPerHour)) = ''2024-01-15''"
    using getAppDate_three_am_cutoff [of "- 8 * msPerHour" 0 "19738 * msPerDay + 4 * msPerHour"]
    by (simp add: app_day_def Day_def HourFromTime_def msPerDay_def msPerHour_def
        calendar_date_def civil_examples ymd_string_def string_evals)
  have y: "YearFromDay (app_day 0 (19738 * msPerDay + 3 * msPerHour)) = 2024"
    by (simp add: app_day_def Day_def HourFromTime_def msPerDay_def msPerHour_def civil_examples)
  then have yr: "1000 \<le> YearFromDay (app_day 0 (19738 * msPerDay + 3 * msPerHour)) \<and>
      YearFromDay (app_day 0 (19738 * msPerDay + 3 * msPerHour)) \<le> 9999"
    by simp
  from getAppDate_three_am_cutoff [of 0 0 "19738 * msPerDay + 3 * msPerHour"] yr
  have a5: "length (getAppDate 0 0 (Some (19738 * msPerDay + 3 * msPerHour))) = 10"
    by blast
  from a1 a2 a3 a4 a5 show ?thesis by simp
qed

section \<open>The week start\<close>

text \<open>
  Claim C8.  For a Date \<open>t\<close>, \<open>getWeekStart\<close> returns a Date \<open>w\<close> on which it is the
  identity; \<open>w\<close> is a Monday (local weekday 1) at local midnight, not after \<open>t\<close> and
  less than seven days before it.  For a string the same holds of the Date the string
  denotes, whenever there is a result.
\<close>

theorem getWeekStart_idempotent_Monday:
  "(\<exists>w. getWeekStart tz (DateObj t) = Some w \<and>
        getWeekStart tz (DateObj w) = Some w \<and>
        getDay tz w = 1 \<and> TimeWithinDay (w + tz) = 0 \<and>
        w \<le> t \<and> t - w < 7 * msPerDay) \<and>
   (\<forall>w. getWeekStart tz (DateStr s) = Some w \<longrightarrow>
        (\<exists>t'. new_Date_string s = Some t' \<and> w \<le> t' \<and> t' - w < 7 * msPerDay) \<and>
        getWeekStart tz (DateObj w) = Some w \<and>
        getDay tz w = 1 \<and> TimeWithinDay (w + tz) = 0)"
proof (intro conjI allI impI)
  show "\<exists>w. getWeekStart tz (DateObj t) = Some w \<and>
        getWeekStart tz (DateObj w) = Some w \<and>
        getDay tz w = 1 \<and> TimeWithinDay (w + tz) = 0 \<and>
        w \<le> t \<and> t - w < 7 * msPerDay"
    using startOfWeek_props [where tz = tz and t = t]
    by (intro exI [of _ "startOfWeek tz 1 t"]) (simp add: getWeekStart_def)
next
  fix w
  assume a: "getWeekStart tz (DateStr s) = Some w"
  then obtain t' where p: "new_Date_string s = Some t'" and w: "w = startOfWeek tz 1 t'"
    by (auto simp: getWeekStart_def)
  from p w startOfWeek_props [where tz = tz and t = t']
  show "\<exists>t'. new_Date_string s = Some t' \<and> w \<le> t' \<and> t' - w < 7 * msPerDay"
    by simp
  from w startOfWeek_props [where tz = tz and t = t']
  show "getWeekStart tz (DateObj w) = Some w" "getDay tz w = 1" "TimeWithinDay (w + tz) = 0"
    by (simp_all add: getWeekStart_def)
qed

theorem getWeekStart_idempotent_Monday_witness:
  "getWeekStart 0 (DateObj example_clock) = Some example_week \<and>
   getWeekStart 0 (DateStr ''2024-01-11'') = Some example_week \<and>
   getWeekStart 0 (DateObj example_week) = Some example_week \<and>
   getDay 0 example_week = 1 \<and> TimeWithinDay (example_week + 0) = 0 \<and>
   example_week \<le> example_clock \<and> example_clock - example_week < 7 * msPerDay"
proof -
  have e1: "getWeekStart 0 (DateObj example_clock) = Some example_week"
    by (simp add: getWeekStart_def startOfWeek_Monday_eq example_clock_def example_week_def
        Day_def msPerDay_def msPerHour_def WeekDay_def)
  have e2: "getWeekStart 0 (DateStr ''2024-01-11'') = Some example_week"
    by (simp add: getWeekStart_def example_parse startOfWeek_Monday_eq example_week_def
        Day_mult WeekDay_examples)
  from getWeekStart_idempotent_Monday [of 0 example_clock "''2024-01-11''"] e1 e2
  show ?thesis by auto
qed

section \<open>The weekly statistics\<close>

text \<open>
  Claim C10.  Whatever mapping the data function returns, \<open>dailyData\<close> has exactly seven
  elements; element \<open>i\<close> carries the formatted date of the week start plus \<open>i\<close> days,
  whose weekday is that of the week start moved on by \<open>i\<close> (Monday to Sunday when the
  week start is a Monday), and the entries the mapping has under that date; a date absent
  from the mapping gives zero calories, zero protein and no entries; and a mapping that
  agrees on the seven dates gives the same result, so other keys contribute nothing.
\<close>

theorem dailyData_seven_days:
  fixes getDataForRange :: "string \<Rightarrow> string \<Rightarrow> 'e + (string \<rightharpoonup> FoodEntry list)"
  assumes "getDataForRange (format_ymd tz ws) (format_ymd tz (addDays tz ws 6)) = Inr allData"
  shows "\<exists>r. getWeeklyStats tz clock ws t m getDataForRange = Inr r \<and>
     length (dailyData r) = 7 \<and>
     (\<forall>i<7. date (dailyData r ! i) = format_ymd tz (ws + int i * msPerDay) \<and>
            getDay tz (ws + int i * msPerDay) = (getDay tz ws + int i) mod 7 \<and>
            entries (dailyData r ! i) = fetched tz ws allData i \<and>
            (allData (date (dailyData r ! i)) = None \<longrightarrow>
               calories (dailyData r ! i) = 0 \<and> protein (dailyData r ! i) = 0 \<and>
               entries (dailyData r ! i) = [])) \<and>
     (\<forall>other.
        (\<forall>i<7. other (format_ymd tz (ws + int i * msPerDay))
                 = allData (format_ymd tz (ws + int i * msPerDay)))
        \<longrightarrow> getWeeklyStats tz clock ws t m
              (\<lambda>startDate endDate. Inr other :: 'e + (string \<rightharpoonup> FoodEntry list)) = Inr r)"
proof -
  from getWeeklyStats_Inr [where getDataForRange = getDataForRange and tz = tz and ws = ws
      and allData = allData and clock = clock and t = t and m = m, OF assms] obtain r where
    r: "getWeeklyStats tz clock ws t m getDataForRange = Inr r"
    and dd: "dailyData r = map (dayData_at tz ws allData) [0..<7]"
    by blast
  have len: "length (dailyData r) = 7" by (simp add: dd)
  have day: "date (dailyData r ! i) = format_ymd tz (ws + int i * msPerDay) \<and>
            getDay tz (ws + int i * msPerDay) = (getDay tz ws + int i) mod 7 \<and>
            entries (dailyData r ! i) = fetched tz ws allData i \<and>
            (allData (date (dailyData r ! i)) = None \<longrightarrow>
               calories (dailyData r ! i) = 0 \<and> protein (dailyData r ! i) = 0 \<and>
               entries (dailyData r ! i) = [])" if "i < 7" for i
  proof -
    from that have nth: "dailyData r ! i = dayData_at tz ws allData i"
      by (simp add: dd)
    have absent: "calories (dayData_at tz ws allData i) = 0 \<and>
        protein (dayData_at tz ws allData i) = 0 \<and> entries (dayData_at tz ws allData i) = []"
      if "allData (format_ymd tz (ws + int i * msPerDay)) = None"
      using that by (simp add: dayData_at_def addDays_eq sumTotals_Nil Let_def)
    show ?thesis
      unfolding nth using absent
      by (simp add: date_dayData_at entries_dayData_at getDay_add_days)
  qed
  have same: "getWeeklyStats tz clock ws t m
      (\<lambda>startDate endDate. Inr other :: 'e + (string \<rightharpoonup> FoodEntry list)) = Inr r"
    if agree: "\<forall>i<7. other (format_ymd tz (ws + int i * msPerDay))
                 = allData (format_ymd tz (ws + int i * msPerDay))" for other
  proof -
    have "map (dayData_at tz ws other) [0..<7] = map (dayData_at tz ws allData) [0..<7]"
      using agree by (intro map_cong refl dayData_at_cong) simp
    then have "getWeeklyStats tz clock ws t m
          (\<lambda>startDate endDate. Inr other :: 'e + (string \<rightharpoonup> FoodEntry list))
        = getWeeklyStats tz clock ws t m getDataForRange"
      by (simp only: getWeeklyStats_def assms Let_def sum.case weekLoop_0)
    with r show ?thesis by simp
  qed
  from r len day same show ?thesis by blast
qed

theorem dailyData_seven_days_witness:
  "\<exists>r. getWeeklyStats 0 example_clock example_week 1800 2200
            (\<lambda>s e. Inr example_data :: unit + (string \<rightharpoonup> FoodEntry list)) = Inr r \<and>
       length (dailyData r) = 7 \<and>
       date (dailyData r ! 0) = ''2024-01-08'' \<and>
       date (dailyData r ! 6) = ''2024-01-14'' \<and>
       calories (dailyData r ! 4) = 0 \<and> protein (dailyData r ! 4) = 0 \<and>
       entries (dailyData r ! 4) = [] \<and>
       getWeeklyStats 0 example_clock example_week 1800 2200
            (\<lambda>s e. Inr example_other :: unit + (string \<rightharpoonup> FoodEntry list)) = Inr r"
proof -
  let ?f = "\<lambda>s e. Inr example_data :: unit + (string \<rightharpoonup> FoodEntry list)"
  have h: "?f (format_ymd 0 example_week) (format_ymd 0 (addDays 0 example_week 6)) = Inr example_data"
    by simp
  have agree: "\<forall>i<7. example_other (format_ymd 0 (example_week + int i * msPerDay))
                 = example_data (format_ymd 0 (example_week + int i * msPerDay))"
  proof (intro allI impI)
    fix i :: nat
    assume "i < 7"
    from less_7_cases [OF this]
    show "example_other (format_ymd 0 (example_week + int i * msPerDay))
            = example_data (format_ymd 0 (example_week + int i * msPerDay))"
      by (elim disjE) (simp_all add: example_dates example_other_def)
  qed
  from dailyData_seven_days [where getDataForRange = ?f and clock = example_clock
      and t = 1800 and m = 2200, OF h]
  obtain r where r: "getWeeklyStats 0 example_clock example_week 1800 2200 ?f = Inr r"
    and len: "length (dailyData r) = 7"
    and day: "\<forall>i<7. date (dailyData r ! i) = format_ymd 0 (example_week + int i * msPerDay) \<and>
            getDay 0 (example_week + int i * msPerDay) = (getDay 0 example_week + int i) mod 7 \<and>
            entries (dailyData r ! i) = fetched 0 example_week example_data i \<and>
            (example_data (date (dailyData r ! i)) = None \<longrightarrow>
               calories (dailyData r ! i) = 0 \<and> protein (dailyData r ! i) = 0 \<and>
               entries (dailyData r ! i) = [])"
    and same: "\<forall>other.
        (\<forall>i<7. other (format_ymd 0 (example_week + int i * msPerDay))
                 = example_data (format_ymd 0 (example_week + int i * msPerDay)))
        \<longrightarrow> getWeeklyStats 0 example_clock example_week 1800 2200
              (\<lambda>startDate endDate. Inr other :: unit + (string \<rightharpoonup> FoodEntry list)) = Inr r"
    by blast
  from day [rule_format, of 0] have d0: "date (dailyData r ! 0) = ''2024-01-08''"
    by (simp add: example_dates)
  from day [rule_format, of 6] have d6: "date (dailyData r ! 6) = ''2024-01-14''"
    by (simp add: example_dates)
  from day [rule_format, of 4] have e4: "date (dailyData r ! 4) = ''2024-01-12''"
    by (simp add: example_dates)
  have none: "example_data ''2024-01-12'' = None"
    by (simp add: example_data_def)
  from day [rule_format, of 4] have d4: "calories (dailyData r ! 4) = 0 \<and>
      protein (dailyData r ! 4) = 0 \<and> entries (dailyData r ! 4) = []"
    by (auto simp: e4 none)
  from same agree have "getWeeklyStats 0 example_clock example_week 1800 2200
      (\<lambda>s e. Inr example_other :: unit + (string \<rightharpoonup> FoodEntry list)) = Inr r"
    by blast
  with r len d0 d6 d4 show ?thesis
    by blast
qed

text \<open>
  Claim C4.  Each of the seven days carries the entry list fetched for its date and, as
  its calories and protein, the sums of the figures of these entries (a missing figure
  counting as 0).  \<open>daysLogged\<close> is the number of the seven days whose fetched entry list
  is not empty, whatever their date and their totals; the averages are taken over the days
  whose date string is below the app date and whose calories are positive, and are 0
  when there is none.  For years of four digits a day's date string is below the app date
  exactly when the day is before the day of the app date.  In particular, when the only
  day with entries is the one dated with the app date, \<open>daysLogged\<close> is 1 and the
  average calories are 0.
\<close>

theorem daysLogged_and_averages:
  assumes "getDataForRange (format_ymd tz ws) (format_ymd tz (addDays tz ws 6)) = Inr allData"
  shows "\<exists>r. getWeeklyStats tz clock ws t m getDataForRange = Inr r \<and>
     length (dailyData r) = 7 \<and>
     (\<forall>i<7. date (dailyData r ! i) = format_ymd tz (addDays tz ws (int i)) \<and>
            entries (dailyData r ! i) =
              (case allData (date (dailyData r ! i)) of None \<Rightarrow> [] | Some es \<Rightarrow> es) \<and>
            entries (dailyData r ! i) = fetched tz ws allData i \<and>
            calories (dailyData r ! i) =
              (\<Sum>e\<leftarrow>entries (dailyData r ! i). case entry_calories e of None \<Rightarrow> 0 | Some v \<Rightarrow> v) \<and>
            protein (dailyData r ! i) =
              (\<Sum>e\<leftarrow>entries (dailyData r ! i). case entry_protein e of None \<Rightarrow> 0 | Some v \<Rightarrow> v)) \<and>
     daysLogged r = length (filter (\<lambda>i. fetched tz ws allData i \<noteq> []) [0..<7]) \<and>
     calories (averages r) =
       (let c = completedDaysWithFood (getAppDate tz clock None) (dailyData r) in
        if c = [] then 0 else Math_round (sum_list (map calories c) / of_nat (length c))) \<and>
     protein (averages r) =
       (let c = completedDaysWithFood (getAppDate tz clock None) (dailyData r) in
        if c = [] then 0 else Math_round (sum_list (map protein c) / of_nat (length c))) \<and>
     (\<forall>i<7. 1000 \<le> YearFromDay (Day (ws + tz) + int i) \<and>
            YearFromDay (Day (ws + tz) + int i) \<le> 9999 \<and>
            1000 \<le> YearFromDay (app_day tz clock) \<and> YearFromDay (app_day tz clock) \<le> 9999
        \<longrightarrow> (dailyData r ! i \<in> set (completedDaysWithFood (getAppDate tz clock None) (dailyData r))
              \<longleftrightarrow> Day (ws + tz) + int i < app_day tz clock \<and> 0 < calories (dailyData r ! i))) \<and>
     (\<forall>k<7. fetched tz ws allData k \<noteq> [] \<and>
            format_ymd tz (addDays tz ws (int k)) = getAppDate tz clock None \<and>
            (\<forall>i<7. i \<noteq> k \<longrightarrow> fetched tz ws allData i = [])
        \<longrightarrow> daysLogged r = 1 \<and> calories (averages r) = 0)"
proof -
  from getWeeklyStats_Inr [where getDataForRange = getDataForRange and tz = tz and ws = ws
      and allData = allData and clock = clock and t = t and m = m, OF assms] obtain r where
    r: "getWeeklyStats tz clock ws t m getDataForRange = Inr r"
    and dd: "dailyData r = map (dayData_at tz ws allData) [0..<7]"
    and dl: "daysLogged r = length (filter (\<lambda>d. entries d \<noteq> []) (dailyData r))"
    and ac: "calories (averages r) =
       (let c = completedDaysWithFood (getAppDate tz clock None) (dailyData r) in
        if c = [] then 0 else Math_round (sum_list (map calories c) / of_nat (length c)))"
    and ap: "protein (averages r) =
       (let c = completedDaysWithFood (getAppDate tz clock None) (dailyData r) in
        if c = [] then 0 else Math_round (sum_list (map protein c) / of_nat (length c)))"
    by blast
  have len: "length (dailyData r) = 7"
    by (simp add: dd)
  have day: "date (dailyData r ! i) = format_ymd tz (addDays tz ws (int i)) \<and>
            entries (dailyData r ! i) =
              (case allData (date (dailyData r ! i)) of None \<Rightarrow> [] | Some es \<Rightarrow> es) \<and>
            entries (dailyData r ! i) = fetched tz ws allData i \<and>
            calories (dailyData r ! i) =
              (\<Sum>e\<leftarrow>entries (dailyData r ! i). case entry_calories e of None \<Rightarrow> 0 | Some v \<Rightarrow> v) \<and>
            protein (dailyData r ! i) =
              (\<Sum>e\<leftarrow>entries (dailyData r ! i). case entry_protein e of None \<Rightarrow> 0 | Some v \<Rightarrow> v)"
    if i: "i < 7" for i
  proof -
    from i have nth: "dailyData r ! i = dayData_at tz ws allData i" by (simp add: dd)
    show ?thesis
      unfolding nth by (simp add: dayData_at_def fetched_def sumTotals_sums Let_def)
  qed
  have dl': "daysLogged r = length (filter (\<lambda>i. fetched tz ws allData i \<noteq> []) [0..<7])"
    unfolding dl dd by (simp add: filter_map comp_def entries_dayData_at)
  have before: "dailyData r ! i \<in> set (completedDaysWithFood (getAppDate tz clock None) (dailyData r))
              \<longleftrightarrow> Day (ws + tz) + int i < app_day tz clock \<and> 0 < calories (dailyData r ! i)"
    if i: "i < 7" and y: "1000 \<le> YearFromDay (Day (ws + tz) + int i)"
      "YearFromDay (Day (ws + tz) + int i) \<le> 9999"
      "1000 \<le> YearFromDay (app_day tz clock)" "YearFromDay (app_day tz clock) \<le> 9999" for i
  proof -
    from i have nth: "dailyData r ! i = dayData_at tz ws allData i" by (simp add: dd)
    from i have mem: "dailyData r ! i \<in> set (dailyData r)" by (simp add: dd)
    show ?thesis
      using mem date_below_app_date [OF y, of allData]
      by (simp add: completedDaysWithFood_def nth [symmetric])
  qed
  have only: "daysLogged r = 1 \<and> calories (averages r) = 0"
    if k: "k < 7" and ne: "fetched tz ws allData k \<noteq> []"
      and td: "format_ymd tz (addDays tz ws (int k)) = getAppDate tz clock None"
      and others: "\<forall>i<7. i \<noteq> k \<longrightarrow> fetched tz ws allData i = []" for k
  proof -
    have one: "daysLogged r = 1"
      unfolding dl' using k ne others by (intro length_filter_single [of k]) auto
    have "\<not> (str_less (date (dayData_at tz ws allData i)) (getAppDate tz clock None)
              \<and> calories (dayData_at tz ws allData i) > 0)" if "i < 7" for i
    proof (cases "i = k")
      case True
      then show ?thesis
        using td by (simp add: dayData_at_def Let_def str_less_irrefl)
    next
      case False
      with others that have "fetched tz ws allData i = []" by simp
      then show ?thesis by (simp add: calories_dayData_at sumTotals_Nil)
    qed
    then have "completedDaysWithFood (getAppDate tz clock None) (dailyData r) = []"
      unfolding completedDaysWithFood_def dd by (auto simp: filter_empty_conv)
    with ac one show ?thesis by simp
  qed
  from day have "\<forall>i<7. date (dailyData r ! i) = format_ymd tz (addDays tz ws (int i)) \<and>
            entries (dailyData r ! i) =
              (case allData (date (dailyData r ! i)) of None \<Rightarrow> [] | Some es \<Rightarrow> es) \<and>
            entries (dailyData r ! i) = fetched tz ws allData i \<and>
            calories (dailyData r ! i) =
              (\<Sum>e\<leftarrow>entries (dailyData r ! i). case entry_calories e of None \<Rightarrow> 0 | Some v \<Rightarrow> v) \<and>
            protein (dailyData r ! i) =
              (\<Sum>e\<leftarrow>entries (dailyData r ! i). case entry_protein e of None \<Rightarrow> 0 | Some v \<Rightarrow> v)"
    by blast
  with r len dl' ac ap before only show ?thesis by blast
qed

theorem daysLogged_and_averages_witness:
  "(\<exists>r. getWeeklyStats 0 example_clock example_week 1800 2200
            (\<lambda>s e. Inr example_today_only :: unit + (string \<rightharpoonup> FoodEntry list)) = Inr r \<and>
       daysLogged r = 1 \<and> calories (averages r) = 0 \<and>
       calories (dailyData r ! 3) = 500 \<and>
       dailyData r ! 3 \<notin> set (completedDaysWithFood (getAppDate 0 example_clock None) (dailyData r))) \<and>
   (\<exists>r. getWeeklyStats 0 example_clock example_week 2000 2000
            (\<lambda>s e. Inr example_data :: unit + (string \<rightharpoonup> FoodEntry list)) = Inr r \<and>
       daysLogged r = 4 \<and>
       calories (dailyData r ! 0) = 1800 \<and> calories (dailyData r ! 2) = 2200 \<and>
       dailyData r ! 0 \<in> set (completedDaysWithFood (getAppDate 0 example_clock None) (dailyData r)) \<and>
       dailyData r ! 3 \<notin> set (completedDaysWithFood (getAppDate 0 example_clock None) (dailyData r)) \<and>
       calories (averages r) = 2000 \<and> protein (averages r) = 140)"
proof -
  let ?f = "\<lambda>s e. Inr example_today_only :: unit + (string \<rightharpoonup> FoodEntry list)"
  let ?g = "\<lambda>s e. Inr example_data :: unit + (string \<rightharpoonup> FoodEntry list)"
  have h: "?f (format_ymd 0 example_week) (format_ymd 0 (addDays 0 example_week 6))
             = Inr example_today_only"
    by simp
  have today: "format_ymd 0 (addDays 0 example_week (int 3)) = getAppDate 0 example_clock None"
    by (simp add: addDays_eq example_dates example_today)
  have others: "\<forall>i<7. i \<noteq> 3 \<longrightarrow> fetched 0 example_week example_today_only i = []"
  proof (intro allI impI)
    fix i :: nat
    assume "i < 7" and "i \<noteq> 3"
    with less_7_cases [of i]
    have "i = 0 \<or> i = Suc 0 \<or> i = 2 \<or> i = 4 \<or> i = 5 \<or> i = 6" by simp
    then show "fetched 0 example_week example_today_only i = []"
      by (elim disjE) (simp_all add: example_fetched_today_only)
  qed
  from daysLogged_and_averages [where getDataForRange = ?f and tz = 0 and ws = example_week
      and clock = example_clock and t = 1800 and m = 2200, OF h]
  obtain r where r: "getWeeklyStats 0 example_clock example_week 1800 2200 ?f = Inr r"
    and day: "\<forall>i<7. date (dailyData r ! i) = format_ymd 0 (addDays 0 example_week (int i)) \<and>
            entries (dailyData r ! i) =
              (case example_today_only (date (dailyData r ! i)) of None \<Rightarrow> [] | Some es \<Rightarrow> es) \<and>
            entries (dailyData r ! i) = fetched 0 example_week example_today_only i \<and>
            calories (dailyData r ! i) =
              (\<Sum>e\<leftarrow>entries (dailyData r ! i). case entry_calories e of None \<Rightarrow> 0 | Some v \<Rightarrow> v) \<and>
            protein (dailyData r ! i) =
              (\<Sum>e\<leftarrow>entries (dailyData r ! i). case entry_protein e of None \<Rightarrow> 0 | Some v \<Rightarrow> v)"
    and before: "\<forall>i<7. 1000 \<le> YearFromDay (Day (example_week + 0) + int i) \<and>
            YearFromDay (Day (example_week + 0) + int i) \<le> 9999 \<and>
            1000 \<le> YearFromDay (app_day 0 example_clock) \<and>
            YearFromDay (app_day 0 example_clock) \<le> 9999
        \<longrightarrow> (dailyData r ! i \<in> set (completedDaysWithFood (getAppDate 0 example_clock None) (dailyData r))
              \<longleftrightarrow> Day (example_week + 0) + int i < app_day 0 example_clock \<and>
                  0 < calories (dailyData r ! i))"
    and only: "\<forall>k<7. fetched 0 example_week example_today_only k \<noteq> [] \<and>
            format_ymd 0 (addDays 0 example_week (int k)) = getAppDate 0 example_clock None \<and>
            (\<forall>i<7. i \<noteq> k \<longrightarrow> fetched 0 example_week example_today_only i = [])
        \<longrightarrow> daysLogged r = 1 \<and> calories (averages r) = 0"
    by blast
  from only [rule_format, of 3] today others
  have a: "daysLogged r = 1 \<and> calories (averages r) = 0"
    by (simp add: example_fetched_today_only)
  have lt: "(0::nat) < 7" "(2::nat) < 7" "(3::nat) < 7"
    by simp_all
  from day [rule_format, OF lt(3)]
  have "entries (dailyData r ! 3) = fetched 0 example_week example_today_only 3"
    and "calories (dailyData r ! 3) =
      (\<Sum>e\<leftarrow>entries (dailyData r ! 3). case entry_calories e of None \<Rightarrow> 0 | Some v \<Rightarrow> v)"
    by blast+
  then have c: "calories (dailyData r ! 3) = 500"
    by (simp add: example_fetched_today_only example_entry_def)
  from before [rule_format, of 3]
  have b: "dailyData r ! 3 \<notin> set (completedDaysWithFood (getAppDate 0 example_clock None) (dailyData r))"
    by (simp add: example_app_day example_week_day civil_examples)
  from r a b c have first: "\<exists>r. getWeeklyStats 0 example_clock example_week 1800 2200 ?f = Inr r \<and>
       daysLogged r = 1 \<and> calories (averages r) = 0 \<and>
       calories (dailyData r ! 3) = 500 \<and>
       dailyData r ! 3 \<notin> set (completedDaysWithFood (getAppDate 0 example_clock None) (dailyData r))"
    by blast
  have h': "?g (format_ymd 0 example_week) (format_ymd 0 (addDays 0 example_week 6))
             = Inr example_data"
    by simp
  from daysLogged_and_averages [where getDataForRange = ?g and tz = 0 and ws = example_week
      and clock = example_clock and t = 2000 and m = 2000, OF h']
  obtain s where s: "getWeeklyStats 0 example_clock example_week 2000 2000 ?g = Inr s"
    and len: "length (dailyData s) = 7"
    and day': "\<forall>i<7. date (dailyData s ! i) = format_ymd 0 (addDays 0 example_week (int i)) \<and>
            entries (dailyData s ! i) =
              (case example_data (date (dailyData s ! i)) of None \<Rightarrow> [] | Some es \<Rightarrow> es) \<and>
            entries (dailyData s ! i) = fetched 0 example_week example_data i \<and>
            calories (dailyData s ! i) =
              (\<Sum>e\<leftarrow>entries (dailyData s ! i). case entry_calories e of None \<Rightarrow> 0 | Some v \<Rightarrow> v) \<and>
            protein (dailyData s ! i) =
              (\<Sum>e\<leftarrow>entries (dailyData s ! i). case entry_protein e of None \<Rightarrow> 0 | Some v \<Rightarrow> v)"
    and dl: "daysLogged s = length (filter (\<lambda>i. fetched 0 example_week example_data i \<noteq> []) [0..<7])"
    and ac: "calories (averages s) =
       (let c = completedDaysWithFood (getAppDate 0 example_clock None) (dailyData s) in
        if c = [] then 0 else Math_round (sum_list (map calories c) / of_nat (length c)))"
    and ap: "protein (averages s) =
       (let c = completedDaysWithFood (getAppDate 0 example_clock None) (dailyData s) in
        if c = [] then 0 else Math_round (sum_list (map protein c) / of_nat (length c)))"
    and before': "\<forall>i<7. 1000 \<le> YearFromDay (Day (example_week + 0) + int i) \<and>
            YearFromDay (Day (example_week + 0) + int i) \<le> 9999 \<and>
            1000 \<le> YearFromDay (app_day 0 example_clock) \<and>
            YearFromDay (app_day 0 example_clock) \<le> 9999
        \<longrightarrow> (dailyData s ! i \<in> set (completedDaysWithFood (getAppDate 0 example_clock None) (dailyData s))
              \<longleftrightarrow> Day (example_week + 0) + int i < app_day 0 example_clock \<and>
                  0 < calories (dailyData s ! i))"
    by blast
  from getWeeklyStats_Inr [where getDataForRange = ?g and tz = 0 and ws = example_week
      and clock = example_clock and t = 2000 and m = 2000, OF h'] s
  have dd: "dailyData s = map (dayData_at 0 example_week example_data) [0..<7]"
    by auto
  have l4: "daysLogged s = 4"
    unfolding dl by (simp add: upt_0_7 example_fetched)
  from day' [rule_format, OF lt(1)]
  have "entries (dailyData s ! 0) = fetched 0 example_week example_data 0"
    and "calories (dailyData s ! 0) =
      (\<Sum>e\<leftarrow>entries (dailyData s ! 0). case entry_calories e of None \<Rightarrow> 0 | Some v \<Rightarrow> v)"
    by blast+
  then have c0: "calories (dailyData s ! 0) = 1800"
    by (simp add: example_fetched example_entry_def)
  from day' [rule_format, OF lt(2)]
  have "entries (dailyData s ! 2) = fetched 0 example_week example_data 2"
    and "calories (dailyData s ! 2) =
      (\<Sum>e\<leftarrow>entries (dailyData s ! 2). case entry_calories e of None \<Rightarrow> 0 | Some v \<Rightarrow> v)"
    by blast+
  then have c2: "calories (dailyData s ! 2) = 2200"
    by (simp add: example_fetched example_entry_def)
  from day' [rule_format, OF lt(3)]
  have "entries (dailyData s ! 3) = fetched 0 example_week example_data 3"
    and "calories (dailyData s ! 3) =
      (\<Sum>e\<leftarrow>entries (dailyData s ! 3). case entry_calories e of None \<Rightarrow> 0 | Some v \<Rightarrow> v)"
    by blast+
  then have c3: "calories (dailyData s ! 3) = 500"
    by (simp add: example_fetched example_entry_def)
  from before' [rule_format, of 0] c0
  have m0: "dailyData s ! 0 \<in> set (completedDaysWithFood (getAppDate 0 example_clock None) (dailyData s))"
    by (simp add: example_app_day example_week_day civil_examples)
  from before' [rule_format, of 3] c3
  have m3: "dailyData s ! 3 \<notin> set (completedDaysWithFood (getAppDate 0 example_clock None) (dailyData s))"
    by (simp add: example_app_day example_week_day civil_examples)
  have avc: "calories (averages s) = 2000"
    using ac by (simp add: dd example_today example_completed Math_round_numeral)
  have avp: "protein (averages s) = 140"
    using ap by (simp add: dd example_today example_completed Math_round_numeral)
  from s l4 c0 c2 m0 m3 avc avp
  have second: "\<exists>r. getWeeklyStats 0 example_clock example_week 2000 2000 ?g = Inr r \<and>
       daysLogged r = 4 \<and>
       calories (dailyData r ! 0) = 1800 \<and> calories (dailyData r ! 2) = 2200 \<and>
       dailyData r ! 0 \<in> set (completedDaysWithFood (getAppDate 0 example_clock None) (dailyData r)) \<and>
       dailyData r ! 3 \<notin> set (completedDaysWithFood (getAppDate 0 example_clock None) (dailyData r)) \<and>
       calories (averages r) = 2000 \<and> protein (averages r) = 140"
    by blast
  from first second show ?thesis by blast
qed

text \<open>
  Claim C6.  When at least one day is completed and non-zero, the daily deficit is the
  average calories minus the maintenance calories, and the weekly deficit is the daily
  deficit times the number of days that entered the average (not times 7).
\<close>

theorem deficit_against_maintenance:
  assumes "getWeeklyStats tz clock ws t m getDataForRange = Inr r"
    and "completedDaysWithFood (getAppDate tz clock None) (dailyData r) \<noteq> []"
  shows "daily (deficit r) = calories (averages r) - m \<and>
         weekly (deficit r) =
           daily (deficit r)
             * of_nat (length (completedDaysWithFood (getAppDate tz clock None) (dailyData r)))"
proof (cases "getDataForRange (format_ymd tz ws) (format_ymd tz (addDays tz ws 6))")
  case (Inl e)
  then show ?thesis using assms(1) by (simp add: getWeeklyStats_Inl)
next
  case (Inr allData)
  from getWeeklyStats_Inr [where getDataForRange = getDataForRange and tz = tz and ws = ws
      and allData = allData and clock = clock and t = t and m = m, OF Inr] assms
  show ?thesis
    by (auto simp: Let_def)
qed

theorem deficit_against_maintenance_witness:
  "\<exists>r. getWeeklyStats 0 example_clock example_week 1800 2200
            (\<lambda>s e. Inr example_data :: unit + (string \<rightharpoonup> FoodEntry list)) = Inr r \<and>
       length (completedDaysWithFood (getAppDate 0 example_clock None) (dailyData r)) = 3 \<and>
       calories (averages r) = 2000 \<and>
       daily (deficit r) = - 200 \<and>
       weekly (deficit r) = - 600"
proof -
  let ?f = "\<lambda>s e. Inr example_data :: unit + (string \<rightharpoonup> FoodEntry list)"
  have "?f (format_ymd 0 example_week) (format_ymd 0 (addDays 0 example_week 6)) = Inr example_data"
    by simp
  from getWeeklyStats_Inr [where getDataForRange = ?f and clock = example_clock and t = 1800
      and m = 2200, OF this]
  obtain r where r: "getWeeklyStats 0 example_clock example_week 1800 2200 ?f = Inr r"
    and dd: "dailyData r = map (dayData_at 0 example_week example_data) [0..<7]"
    and ac: "calories (averages r) =
       (let c = completedDaysWithFood (getAppDate 0 example_clock None) (dailyData r) in
        if c = [] then 0 else Math_round (sum_list (map calories c) / of_nat (length c)))"
    by blast
  have len: "length (completedDaysWithFood (getAppDate 0 example_clock None) (dailyData r)) = 3"
    by (simp add: dd example_today example_completed)
  then have ne: "completedDaysWithFood (getAppDate 0 example_clock None) (dailyData r) \<noteq> []"
    by auto
  have avg: "calories (averages r) = 2000"
    using ac by (simp add: dd example_today example_completed Math_round_numeral)
  from deficit_against_maintenance [OF r ne] avg len r show ?thesis
    by (intro exI [of _ r]) simp
qed

text \<open>
  Claim C1.  On a week without any entry no day is completed and non-zero; the averages
  and the weekly deficit are 0, but the daily deficit is minus the maintenance calories,
  not 0: here \<open>- 2000\<close>.
\<close>

theorem empty_week_daily_deficit:
  "map_sum id (\<lambda>r. (averages r, deficit r, daysLogged r))
     (getWeeklyStats 0 example_clock example_week 2000 2000
        (\<lambda>s e. Inr Map.empty :: unit + (string \<rightharpoonup> FoodEntry list)))
   = Inr (\<lparr>calories = 0, protein = 0\<rparr>, \<lparr>daily = - 2000, weekly = 0\<rparr>, 0)"
proof -
  let ?f = "\<lambda>s e. Inr Map.empty :: unit + (string \<rightharpoonup> FoodEntry list)"
  have "?f (format_ymd 0 example_week) (format_ymd 0 (addDays 0 example_week 6)) = Inr Map.empty"
    by simp
  from getWeeklyStats_Inr [where getDataForRange = ?f and clock = example_clock and t = 2000
      and m = 2000, OF this]
  obtain r where r: "getWeeklyStats 0 example_clock example_week 2000 2000 ?f = Inr r"
    and dd: "dailyData r = map (dayData_at 0 example_week Map.empty) [0..<7]"
    and dl: "daysLogged r = length (filter (\<lambda>d. entries d \<noteq> []) (dailyData r))"
    by blast
  have c: "completedDaysWithFood (getAppDate 0 example_clock None) (dailyData r) = []"
    by (simp add: dd completedDaysWithFood_def dayData_at_empty filter_empty_conv)
  have l: "daysLogged r = 0"
    by (simp add: dl dd dayData_at_empty)
  from getWeeklyStats_no_completed [OF r c] have
    "averages r = \<lparr>calories = 0, protein = 0\<rparr>" "deficit r = \<lparr>daily = - 2000, weekly = 0\<rparr>"
    by simp_all
  with r l show ?thesis by simp
qed

text \<open>
  Claim C9.  The value returned by \<open>getWeeklyStats\<close> is the same for any two values of
  the argument \<open>targetCalories\<close>, everything else (zone, clock, week, maintenance and
  the data function) being equal: the argument is never read.
\<close>

theorem getWeeklyStats_target_unused:
  "getWeeklyStats tz clock ws t1 m getDataForRange = getWeeklyStats tz clock ws t2 m getDataForRange"
  by (simp add: getWeeklyStats_def)

section \<open>The calorie colour\<close>

lemma getCaloriesColor_bands:
  assumes "cals \<noteq> 0" "target \<noteq> 0"
  shows "getCaloriesColor cals target maintenance =
           tier_class (spec_classifyCalories cals target maintenance)"
  using assms
  by (simp add: getCaloriesColor_def spec_classifyCalories_def tier_class_def js_div_def
      js_times_def Math_abs_def js_le_def Let_def)

lemma caloriesData_frontColor_bands:
  assumes "calories day \<noteq> 0" "targetCalories \<noteq> 0"
  shows "caloriesData_frontColor day targetCalories maintenanceCalories =
           tier_bar (spec_classifyCalories (calories day) targetCalories maintenanceCalories)"
  using assms
  by (simp add: caloriesData_frontColor_def spec_classifyCalories_def tier_bar_def js_div_def
      js_times_def Math_abs_def js_le_def Let_def)

lemma getCalorieColor_bands:
  assumes "calories totals \<noteq> 0" "targetCalories \<noteq> 0" "maintenance \<noteq> 0"
  shows "getCalorieColor totals targetCalories (Some maintenance) =
           tier_hex (spec_classifyCalories (calories totals) targetCalories maintenance)"
  using assms
  by (simp add: getCalorieColor_def spec_classifyCalories_def tier_hex_def falsy_def
      or_zero_def Let_def)

lemma getCalorieColor_index_bands:
  assumes "foldl (\<lambda>acc entry. acc + or_zero (entry_calories entry)) 0 es \<noteq> 0"
    and "target_calories settings \<noteq> 0"
  shows "getCalorieColor_index es settings =
           tier_hex (spec_classifyCalories
             (foldl (\<lambda>acc entry. acc + or_zero (entry_calories entry)) 0 es)
             (target_calories settings) (maintenance_calories settings))"
  using assms
  by (simp add: getCalorieColor_index_def spec_classifyCalories_def tier_hex_def Let_def)

lemma spec_classifyCalories_no_data:
  "spec_classifyCalories measured target maintenance = no_data \<longleftrightarrow> measured = 0 \<or> target = 0"
  by (simp add: spec_classifyCalories_def Let_def)

lemma tier_renderings_inj:
  "tier_hex a = tier_hex b \<longleftrightarrow> a = b"
  "tier_class a = tier_class b \<longleftrightarrow> a = b"
  "tier_bar a = tier_bar b \<longleftrightarrow> a = b"
  by (cases a; cases b; simp add: tier_hex_def tier_class_def tier_bar_def)+

text \<open>
  Where the four display sites follow the rule of the specification: for a measurement
  and a target other than 0 the colour is the rendering of the tier that the rule gives,
  at the admin grid, the Track screen and the weekly chart for every maintenance, at the
  Totals widget for every maintenance that is passed and is not 0.  With the target equal
  to the maintenance the rule is the strict band.
\<close>

lemma colour_follows_bands:
  assumes "measured \<noteq> 0" and "target \<noteq> 0"
  shows "getCaloriesColor measured target maintenance =
           tier_class (spec_classifyCalories measured target maintenance) \<and>
         (foldl (\<lambda>acc entry. acc + or_zero (entry_calories entry)) 0 es = measured \<longrightarrow>
            getCalorieColor_index es
                \<lparr>target_calories = target, maintenance_calories = maintenance,
                 target_protein = targetProtein\<rparr> =
              tier_hex (spec_classifyCalories measured target maintenance)) \<and>
         (calories day = measured \<longrightarrow>
            caloriesData_frontColor day target maintenance =
              tier_bar (spec_classifyCalories measured target maintenance)) \<and>
         (maintenance \<noteq> 0 \<longrightarrow>
            getCalorieColor \<lparr>calories = measured, protein = p\<rparr> target (Some maintenance) =
              tier_hex (spec_classifyCalories measured target maintenance)) \<and>
         (target = maintenance \<longrightarrow>
            spec_classifyCalories measured target maintenance =
              (if \<bar>(measured - target) / target * 100\<bar> \<le> 5 then on_track else off_track))"
proof -
  note nz = assms
  have 1: "getCaloriesColor measured target maintenance =
           tier_class (spec_classifyCalories measured target maintenance)"
    using nz by (rule getCaloriesColor_bands)
  have 2: "getCalorieColor_index es
                \<lparr>target_calories = target, maintenance_calories = maintenance,
                 target_protein = targetProtein\<rparr> =
              tier_hex (spec_classifyCalories measured target maintenance)"
    if "foldl (\<lambda>acc entry. acc + or_zero (entry_calories entry)) 0 es = measured"
    using getCalorieColor_index_bands [of es "\<lparr>target_calories = target,
      maintenance_calories = maintenance, target_protein = targetProtein\<rparr>"] that nz
    by simp
  have 3: "caloriesData_frontColor day target maintenance =
              tier_bar (spec_classifyCalories measured target maintenance)"
    if "calories day = measured"
    using caloriesData_frontColor_bands [of day target maintenance] that nz by simp
  have 4: "getCalorieColor \<lparr>calories = measured, protein = p\<rparr> target (Some maintenance) =
              tier_hex (spec_classifyCalories measured target maintenance)"
    if "maintenance \<noteq> 0"
    using getCalorieColor_bands [of "\<lparr>calories = measured, protein = p\<rparr>" target maintenance]
      that nz by simp
  have 5: "spec_classifyCalories measured target maintenance =
              (if \<bar>(measured - target) / target * 100\<bar> \<le> 5 then on_track else off_track)"
    if "target = maintenance"
    using that nz by (simp add: spec_classifyCalories_def Let_def)
  from 1 2 3 4 5 show ?thesis by blast
qed

lemma colour_follows_bands_examples:
  "getCaloriesColor 1900 1800 2200 = ''bg-red-100 text-red-700'' \<and>
   getCalorieColor_index [example_entry 1700 100]
     \<lparr>target_calories = 1800, maintenance_calories = 2200, target_protein = 150\<rparr> = ''#10A37F'' \<and>
   caloriesData_frontColor
     \<lparr>calories = 1400, protein = 90, date = ''2024-01-08'', entries = [example_entry 1400 90]\<rparr>
     1800 2200 = ''#FB923C'' \<and>
   getCalorieColor \<lparr>calories = 1500, protein = 90\<rparr> 1800 (Some 2200) = ''#F59E0B'' \<and>
   spec_classifyCalories 1800 2000 2000 = off_track"
proof -
  have s: "foldl (\<lambda>acc entry. acc + or_zero (entry_calories entry)) 0 [example_entry 1700 100] = 1700"
    by (simp add: example_entry_def or_zero_def)
  have c1: "spec_classifyCalories 1900 1800 2200 = off_track"
    and c2: "spec_classifyCalories 1700 1800 2200 = on_track"
    and c3: "spec_classifyCalories 1500 1800 2200 = close"
    and c4: "spec_classifyCalories 1400 1800 2200 = needs_work"
    by (simp_all add: spec_classifyCalories_def Let_def)
  from colour_follows_bands [of 1900 1800 2200] c1
  have a1: "getCaloriesColor 1900 1800 2200 = ''bg-red-100 text-red-700''"
    by (simp add: tier_class_def)
  from colour_follows_bands [of 1700 1800 2200 "[example_entry 1700 100]" 150] s c2
  have a2: "getCalorieColor_index [example_entry 1700 100]
     \<lparr>target_calories = 1800, maintenance_calories = 2200, target_protein = 150\<rparr> = ''#10A37F''"
    by (simp add: tier_hex_def)
  from colour_follows_bands [of 1400 1800 2200 _ _
      "\<lparr>calories = 1400, protein = 90, date = ''2024-01-08'', entries = [example_entry 1400 90]\<rparr>"] c4
  have a3: "caloriesData_frontColor
     \<lparr>calories = 1400, protein = 90, date = ''2024-01-08'', entries = [example_entry 1400 90]\<rparr>
     1800 2200 = ''#FB923C''"
    by (simp add: tier_bar_def)
  from colour_follows_bands [of 1500 1800 2200 _ _ _ 90] c3
  have a4: "getCalorieColor \<lparr>calories = 1500, protein = 90\<rparr> 1800 (Some 2200) = ''#F59E0B''"
    by (simp add: tier_hex_def)
  from colour_follows_bands [of 1800 2000 2000]
  have a5: "spec_classifyCalories 1800 2000 2000 = off_track"
    by simp
  from a1 a2 a3 a4 a5 show ?thesis by simp
qed

lemma getCaloriesColor_zero_target:
  "getCaloriesColor 1500 0 2000 = ''bg-red-100 text-red-700''"
  by (simp add: getCaloriesColor_def js_div_def js_times_def Math_abs_def js_le_def Let_def)

lemma caloriesData_frontColor_zero_target:
  "caloriesData_frontColor
     \<lparr>calories = 1500, protein = 90, date = ''2024-01-08'', entries = [example_entry 1500 90]\<rparr>
     0 2000 = ''#F87171''"
  by (simp add: caloriesData_frontColor_def js_div_def js_times_def Math_abs_def js_le_def
      Let_def)

text \<open>
  Claim C7.  The Totals widget tests the maintenance with \<open>!maintenanceCalories\<close>, which
  holds for a maintenance of 0 as it does for a missing one.  With 2100 measured against
  a target of 2000 and a maintenance of 0 the widget leaves the bands and shows red,
  where the rule of the claim (target above maintenance, deviation upwards, 5 per cent,
  gradual band) gives \<open>on_track\<close>, rendered green, and where the Track screen, the admin
  grid and the weekly chart show green on the same figures.
\<close>

theorem Totals_zero_maintenance_off_the_bands:
  "getCalorieColor \<lparr>calories = 2100, protein = 0\<rparr> 2000 (Some 0) = ''#EF4444'' \<and>
   spec_classifyCalories 2100 2000 0 = on_track \<and>
   tier_hex on_track = ''#10A37F'' \<and>
   getCalorieColor_index [example_entry 2100 0]
     \<lparr>target_calories = 2000, maintenance_calories = 0, target_protein = 150\<rparr> = ''#10A37F'' \<and>
   getCaloriesColor 2100 2000 0 = ''bg-green-100 text-green-700'' \<and>
   caloriesData_frontColor
     \<lparr>calories = 2100, protein = 0, date = ''2024-01-08'', entries = [example_entry 2100 0]\<rparr>
     2000 0 = ''#4ADE80''"
  by (simp add: getCalorieColor_def getCalorieColor_index_def getCaloriesColor_def
      caloriesData_frontColor_def falsy_def spec_classifyCalories_def tier_hex_def
      example_entry_def or_zero_def js_div_def js_times_def Math_abs_def js_le_def Let_def)

text \<open>
  Claim C2, as amended.  A measurement of 0 gives the \<open>no_data\<close> colour at every display
  site: the Totals widget, the Track screen, the admin grid and the weekly chart.  A
  target of 0 gives it at the Totals widget and at the Track screen.  With a measurement
  and a target other than 0 no display site gives the \<open>no_data\<close> colour, whatever the
  maintenance, a maintenance of 0 included.
\<close>

theorem no_data_colour:
  "(calories totals = 0 \<or> targetCalories = 0 \<longrightarrow>
      getCalorieColor totals targetCalories maintenanceCalories = tier_hex no_data) \<and>
   (foldl (\<lambda>acc entry. acc + or_zero (entry_calories entry)) 0 es = 0 \<or>
      target_calories settings = 0 \<longrightarrow>
      getCalorieColor_index es settings = tier_hex no_data) \<and>
   getCaloriesColor 0 target maintenance = tier_class no_data \<and>
   (calories day = 0 \<longrightarrow>
      caloriesData_frontColor day target maintenance = tier_bar no_data) \<and>
   (calories totals \<noteq> 0 \<and> targetCalories \<noteq> 0 \<longrightarrow>
      getCalorieColor totals targetCalories maintenanceCalories \<noteq> tier_hex no_data) \<and>
   (foldl (\<lambda>acc entry. acc + or_zero (entry_calories entry)) 0 es \<noteq> 0 \<and>
      target_calories settings \<noteq> 0 \<longrightarrow>
      getCalorieColor_index es settings \<noteq> tier_hex no_data) \<and>
   (measured \<noteq> 0 \<and> target \<noteq> 0 \<longrightarrow>
      getCaloriesColor measured target maintenance \<noteq> tier_class no_data) \<and>
   (calories day \<noteq> 0 \<and> target \<noteq> 0 \<longrightarrow>
      caloriesData_frontColor day target maintenance \<noteq> tier_bar no_data)"
proof -
  have 1: "getCalorieColor totals targetCalories maintenanceCalories = tier_hex no_data"
    if "calories totals = 0 \<or> targetCalories = 0"
    using that by (auto simp: getCalorieColor_def tier_hex_def)
  have 2: "getCalorieColor_index es settings = tier_hex no_data"
    if "foldl (\<lambda>acc entry. acc + or_zero (entry_calories entry)) 0 es = 0 \<or>
        target_calories settings = 0"
    using that by (auto simp: getCalorieColor_index_def tier_hex_def Let_def)
  have 3: "getCaloriesColor 0 target maintenance = tier_class no_data"
    by (simp add: getCaloriesColor_def tier_class_def)
  have 4: "caloriesData_frontColor day target maintenance = tier_bar no_data"
    if "calories day = 0"
    using that by (simp add: caloriesData_frontColor_def tier_bar_def)
  have 5: "getCalorieColor totals targetCalories maintenanceCalories \<noteq> tier_hex no_data"
    if "calories totals \<noteq> 0 \<and> targetCalories \<noteq> 0"
    using that by (simp add: getCalorieColor_def tier_hex_def Let_def)
  have 6: "getCalorieColor_index es settings \<noteq> tier_hex no_data"
    if "foldl (\<lambda>acc entry. acc + or_zero (entry_calories entry)) 0 es \<noteq> 0 \<and>
        target_calories settings \<noteq> 0"
    using that
    by (simp add: getCalorieColor_index_bands tier_renderings_inj spec_classifyCalories_no_data)
  have 7: "getCaloriesColor measured target maintenance \<noteq> tier_class no_data"
    if "measured \<noteq> 0 \<and> target \<noteq> 0"
    using that
    by (simp add: getCaloriesColor_bands tier_renderings_inj spec_classifyCalories_no_data)
  have 8: "caloriesData_frontColor day target maintenance \<noteq> tier_bar no_data"
    if "calories day \<noteq> 0 \<and> target \<noteq> 0"
    using that
    by (simp add: caloriesData_frontColor_bands tier_renderings_inj spec_classifyCalories_no_data)
  from 1 2 3 4 5 6 7 8 show ?thesis by blast
qed

text \<open>
  Claim C2 as stated fails for a maintenance of 0: with 1500 measured against a target
  of 2000 the Track screen, the admin grid and the weekly chart show red, the rendering
  of \<open>off_track\<close>, which is also what the rule of the specification gives (target above
  maintenance, deviation downwards, 25 per cent, strict band); none shows the \<open>no_data\<close>
  gray.
\<close>

theorem no_data_zero_maintenance_counterexample:
  "getCalorieColor_index [example_entry 1500 90]
     \<lparr>target_calories = 2000, maintenance_calories = 0, target_protein = 150\<rparr> = ''#EF4444'' \<and>
   getCaloriesColor 1500 2000 0 = ''bg-red-100 text-red-700'' \<and>
   caloriesData_frontColor
     \<lparr>calories = 1500, protein = 90, date = ''2024-01-08'', entries = [example_entry 1500 90]\<rparr>
     2000 0 = ''#F87171'' \<and>
   spec_classifyCalories 1500 2000 0 = off_track \<and>
   tier_hex no_data = ''#9CA3AF'' \<and>
   tier_class no_data = ''bg-gray-100 text-gray-500'' \<and>
   tier_bar no_data = ''#E5E7EB''"
  by (simp add: getCalorieColor_index_def getCaloriesColor_def caloriesData_frontColor_def
      spec_classifyCalories_def tier_hex_def tier_class_def tier_bar_def
      example_entry_def or_zero_def js_div_def js_times_def Math_abs_def js_le_def Let_def)

theorem no_data_colour_witness:
  "getCalorieColor \<lparr>calories = 0, protein = 0\<rparr> 2000 (Some 2200) = ''#9CA3AF'' \<and>
   getCalorieColor \<lparr>calories = 1500, protein = 90\<rparr> 0 None = ''#9CA3AF'' \<and>
   getCalorieColor_index []
     \<lparr>target_calories = 2000, maintenance_calories = 2200, target_protein = 150\<rparr> = ''#9CA3AF'' \<and>
   getCalorieColor_index [example_entry 1500 90]
     \<lparr>target_calories = 0, maintenance_calories = 2200, target_protein = 150\<rparr> = ''#9CA3AF'' \<and>
   getCaloriesColor 0 2000 2200 = ''bg-gray-100 text-gray-500'' \<and>
   caloriesData_frontColor \<lparr>calories = 0, protein = 0, date = ''2024-01-12'', entries = []\<rparr>
     2000 2200 = ''#E5E7EB'' \<and>
   getCalorieColor \<lparr>calories = 1500, protein = 90\<rparr> 2000 (Some 2200) \<noteq> ''#9CA3AF'' \<and>
   getCalorieColor_index [example_entry 1500 90]
     \<lparr>target_calories = 2000, maintenance_calories = 0, target_protein = 150\<rparr> \<noteq> ''#9CA3AF'' \<and>
   getCaloriesColor 1500 2000 0 \<noteq> ''bg-gray-100 text-gray-500'' \<and>
   caloriesData_frontColor
     \<lparr>calories = 1500, protein = 90, date = ''2024-01-08'', entries = [example_entry 1500 90]\<rparr>
     2000 0 \<noteq> ''#E5E7EB''"
proof -
  note t = no_data_colour
  let ?empty_day = "\<lparr>calories = 0, protein = 0, date = ''2024-01-12'', entries = []\<rparr>"
  let ?logged_day = "\<lparr>calories = 1500, protein = 90, date = ''2024-01-08'',
                entries = [example_entry 1500 90]\<rparr>"
  let ?zero_maintenance =
    "\<lparr>target_calories = 2000, maintenance_calories = 0, target_protein = 150\<rparr>"
  have s: "foldl (\<lambda>acc entry. acc + or_zero (entry_calories entry)) 0 [example_entry 1500 90] = 1500"
    by (simp add: example_entry_def or_zero_def)
  from t [where totals = "\<lparr>calories = 0, protein = 0\<rparr>" and targetCalories = 2000
      and maintenanceCalories = "Some 2200"]
  have a1: "getCalorieColor \<lparr>calories = 0, protein = 0\<rparr> 2000 (Some 2200) = ''#9CA3AF''"
    by (simp add: tier_hex_def)
  from t [where totals = "\<lparr>calories = 1500, protein = 90\<rparr>" and targetCalories = 0
      and maintenanceCalories = None]
  have a2: "getCalorieColor \<lparr>calories = 1500, protein = 90\<rparr> 0 None = ''#9CA3AF''"
    by (simp add: tier_hex_def)
  from t [where es = "[]"
      and settings = "\<lparr>target_calories = 2000, maintenance_calories = 2200, target_protein = 150\<rparr>"]
  have a3: "getCalorieColor_index []
     \<lparr>target_calories = 2000, maintenance_calories = 2200, target_protein = 150\<rparr> = ''#9CA3AF''"
    by (simp add: tier_hex_def)
  from t [where es = "[example_entry 1500 90]"
      and settings = "\<lparr>target_calories = 0, maintenance_calories = 2200, target_protein = 150\<rparr>"]
  have a4: "getCalorieColor_index [example_entry 1500 90]
     \<lparr>target_calories = 0, maintenance_calories = 2200, target_protein = 150\<rparr> = ''#9CA3AF''"
    by (simp add: tier_hex_def)
  from t [where target = 2000 and maintenance = 2200]
  have a5: "getCaloriesColor 0 2000 2200 = ''bg-gray-100 text-gray-500''"
    by (simp add: tier_class_def)
  from t [where day = ?empty_day and target = 2000 and maintenance = 2200]
  have a6: "caloriesData_frontColor ?empty_day 2000 2200 = ''#E5E7EB''"
    by (simp add: tier_bar_def)
  from t [where totals = "\<lparr>calories = 1500, protein = 90\<rparr>" and targetCalories = 2000
      and maintenanceCalories = "Some 2200"]
  have b1: "getCalorieColor \<lparr>calories = 1500, protein = 90\<rparr> 2000 (Some 2200) \<noteq> ''#9CA3AF''"
    by (simp add: tier_hex_def)
  from t [where es = "[example_entry 1500 90]" and settings = ?zero_maintenance] s
  have b2: "getCalorieColor_index [example_entry 1500 90] ?zero_maintenance \<noteq> ''#9CA3AF''"
    by (simp add: tier_hex_def)
  from t [where measured = 1500 and target = 2000 and maintenance = 0]
  have b3: "getCaloriesColor 1500 2000 0 \<noteq> ''bg-gray-100 text-gray-500''"
    by (simp add: tier_class_def)
  from t [where day = ?logged_day and target = 2000 and maintenance = 0]
  have b4: "caloriesData_frontColor ?logged_day 2000 0 \<noteq> ''#E5E7EB''"
    by (simp add: tier_bar_def)
  from a1 a2 a3 a4 a5 a6 b1 b2 b3 b4 show ?thesis by simp
qed

section \<open>Week navigation\<close>

lemma navigateWeek_Dashboard_backward:
  "direction \<le> 0 \<Longrightarrow>
   navigateWeek_Dashboard tz clock ws direction = Inr (ws + direction * 7 * msPerDay)"
  by (simp add: navigateWeek_Dashboard_def setDate_getDate Let_def)

lemma navigateWeek_backward:
  "direction \<le> 0 \<Longrightarrow>
   navigateWeek tz clock st direction =
     Inr (st\<lparr>expandedRowsData := Map.empty,
              weekStart := weekStart st + direction * 7 * msPerDay\<rparr>)"
  by (simp add: navigateWeek_def setDate_getDate Let_def)

text \<open>
  Claim C3.  On Monday 2024-01-15 at 1 AM local time the app date is still Sunday
  2024-01-14, whose week starts on 2024-01-08.  From that week the Dashboard screen
  accepts a step forward to the week of 2024-01-15, because it takes today's date from
  \<open>toISOString\<close> and not from the 3 AM rule; the analytics screen, which uses
  \<open>getAppDate\<close>, refuses the same step.
\<close>

theorem navigateWeek_Dashboard_future_week:
  "getAppDate 0 example_night None = ''2024-01-14'' \<and>
   getWeekStart 0 (DateStr ''2024-01-14'') = Some example_week \<and>
   format_ymd 0 example_week = ''2024-01-08'' \<and>
   navigateWeek_Dashboard 0 example_night example_week 1 = Inr (example_week + 7 * msPerDay) \<and>
   format_ymd 0 (example_week + 7 * msPerDay) = ''2024-01-15'' \<and>
   navigateWeek 0 example_night
     \<lparr>weekStart = example_week, expandedRowsData = (Map.empty :: string \<rightharpoonup> unit)\<rparr> 1
     = Inr \<lparr>weekStart = example_week, expandedRowsData = Map.empty\<rparr>"
proof -
  have a: "getWeekStart 0 (DateStr ''2024-01-14'') = Some example_week"
    using example_night_week_starts(2)
    by (simp add: getWeekStart_def example_night_parses)
  have b: "navigateWeek_Dashboard 0 example_night example_week 1
             = Inr (example_week + 7 * msPerDay)"
    by (simp add: navigateWeek_Dashboard_def setDate_getDate example_night_utc_date
        example_night_parses example_night_week_starts example_night_formats Let_def)
  have c: "navigateWeek 0 example_night
     \<lparr>weekStart = example_week, expandedRowsData = (Map.empty :: string \<rightharpoonup> unit)\<rparr> 1
     = Inr \<lparr>weekStart = example_week, expandedRowsData = Map.empty\<rparr>"
    by (simp add: navigateWeek_def setDate_getDate example_night_app_date
        example_night_parses example_night_week_starts example_night_formats example_dates
        Let_def)
  from a b c show ?thesis
    by (simp add: example_night_app_date example_dates example_night_formats)
qed

end
